theory Spec2Isabelle
  imports Complex_Main "HOL-Library.Char_ord"
begin

section \<open>Python and pandas primitives used by the file processor\<close>

text \<open>
  The file processor (\<open>app/services/file_processor.py\<close>) leans on a handful of Python
  built-ins: \<open>str\<close>, \<open>float\<close>, \<open>int\<close>, \<open>bool\<close>, \<open>str.lower\<close>, \<open>str.upper\<close>,
  \<open>str.replace\<close> and \<open>uuid.uuid4().hex\<close>. They are modelled here on ASCII text.
  Strings are \<open>char list\<close>; code points beyond ASCII are outside the model.
\<close>

subsection \<open>Characters and case\<close>

definition is_space :: "char \<Rightarrow> bool" where
  \<comment> \<open>the ASCII characters Python strips as whitespace\<close>
  "is_space c = (let n = (of_char c :: nat) in (9 \<le> n \<and> n \<le> 13) \<or> (28 \<le> n \<and> n \<le> 32))"

definition is_digit :: "char \<Rightarrow> bool" where
  "is_digit c = (let n = (of_char c :: nat) in 48 \<le> n \<and> n \<le> 57)"

definition digit_val :: "char \<Rightarrow> nat" where
  "digit_val c = of_char c - 48"

definition lower_char :: "char \<Rightarrow> char" where
  "lower_char c = (let n = (of_char c :: nat) in if 65 \<le> n \<and> n \<le> 90 then char_of (n + 32) else c)"

definition upper_char :: "char \<Rightarrow> char" where
  "upper_char c = (let n = (of_char c :: nat) in if 97 \<le> n \<and> n \<le> 122 then char_of (n - 32) else c)"

definition str_lower :: "string \<Rightarrow> string" where
  "str_lower s = map lower_char s"

definition str_upper :: "string \<Rightarrow> string" where
  "str_upper s = map upper_char s"

definition str_replace_space :: "string \<Rightarrow> string" where
  \<comment> \<open>\<open>s.replace(' ', '_')\<close>\<close>
  "str_replace_space s = map (\<lambda>c. if c = CHR '' '' then CHR ''_'' else c) s"

definition py_strip :: "string \<Rightarrow> string" where
  \<comment> \<open>\<open>s.strip()\<close>: leading and trailing whitespace removed\<close>
  "py_strip s = rev (dropWhile is_space (rev (dropWhile is_space s)))"

subsection \<open>Decimal and hexadecimal rendering\<close>

definition dec_digit :: "nat \<Rightarrow> char" where
  "dec_digit n = char_of (48 + n)"

fun dec_of_nat :: "nat \<Rightarrow> string" where
  "dec_of_nat n = (if n < 10 then [dec_digit n] else dec_of_nat (n div 10) @ [dec_digit (n mod 10)])"

declare dec_of_nat.simps [simp del]

definition str_of_int :: "int \<Rightarrow> string" where
  \<comment> \<open>\<open>str(i)\<close> for a Python integer\<close>
  "str_of_int i = (if i < 0 then CHR ''-'' # dec_of_nat (nat (- i)) else dec_of_nat (nat i))"

definition hex_digit :: "nat \<Rightarrow> char" where
  \<comment> \<open>one lowercase hexadecimal digit, as \<open>'%x'\<close> prints it\<close>
  "hex_digit n = (if n < 10 then char_of (48 + n) else char_of (87 + n))"

fun hex_of :: "nat \<Rightarrow> nat \<Rightarrow> string" where
  \<comment> \<open>\<open>'%0kx' % u\<close>: the \<open>k\<close> low hexadecimal digits of \<open>u\<close>, most significant first\<close>
  "hex_of 0 u = []"
| "hex_of (Suc k) u = hex_of k (u div 16) @ [hex_digit (u mod 16)]"

definition uuid_hex :: "nat \<Rightarrow> string" where
  \<comment> \<open>\<open>uuid.UUID.hex\<close>, \<open>'%032x' % self.int\<close>: the 128 low bits of \<open>u\<close> as 32 lowercase
    hexadecimal digits\<close>
  "uuid_hex u = hex_of 32 u"

definition hex8 :: "nat \<Rightarrow> string" where
  \<comment> \<open>\<open>uuid.uuid4().hex[:8]\<close>\<close>
  "hex8 u = take 8 (uuid_hex u)"

definition hex12 :: "nat \<Rightarrow> string" where
  \<comment> \<open>\<open>uuid.uuid4().hex[:12]\<close>\<close>
  "hex12 u = take 12 (uuid_hex u)"

subsection \<open>Numbers read from text\<close>

text \<open>
  A Python \<open>float\<close> is a rational number (every finite binary64 value is one) or one of
  the three special values. Text is read as the decimal it denotes and rounded to binary64.
\<close>

datatype pyfloat = Fin rat | PosInf | NegInf | NaNf

fun digitpart :: "string \<Rightarrow> bool" where
  \<comment> \<open>digits, with single underscores allowed between two digits\<close>
  "digitpart [] = False"
| "digitpart [c] = is_digit c"
| "digitpart (c # d # s) = (is_digit c \<and> (if d = CHR ''_'' then digitpart s else digitpart (d # s)))"

definition digits_val :: "string \<Rightarrow> nat" where
  "digits_val s = foldl (\<lambda>a c. 10 * a + digit_val c) 0 (filter is_digit s)"

definition split_sign :: "string \<Rightarrow> bool \<times> string" where
  \<comment> \<open>an optional leading sign; True for minus\<close>
  "split_sign s = (case s of [] \<Rightarrow> (False, [])
     | c # r \<Rightarrow> if c = CHR ''-'' then (True, r) else if c = CHR ''+'' then (False, r) else (False, s))"

definition parse_exponent :: "string \<Rightarrow> int option" where
  \<comment> \<open>what follows the mantissa: nothing, or \<open>e\<close>/\<open>E\<close>, an optional sign and digits\<close>
  "parse_exponent r = (case r of [] \<Rightarrow> Some 0
     | _ # t \<Rightarrow> (let (neg, ds) = split_sign t in
         if digitpart ds then Some (if neg then - int (digits_val ds) else int (digits_val ds)) else None))"

definition parse_mantissa :: "string \<Rightarrow> rat option" where
  \<comment> \<open>\<open>[digits] . digits\<close> or \<open>digits [.]\<close>\<close>
  "parse_mantissa m =
     (let ip = takeWhile (\<lambda>c. c \<noteq> CHR ''.'') m; r = dropWhile (\<lambda>c. c \<noteq> CHR ''.'') m in
      if r = [] then (if digitpart ip then Some (of_nat (digits_val ip)) else None)
      else (let fp = tl r in
        if (ip = [] \<or> digitpart ip) \<and> (fp = [] \<or> digitpart fp) \<and> \<not> (ip = [] \<and> fp = [])
        then Some (of_nat (digits_val (ip @ fp)) / 10 ^ length (filter is_digit fp))
        else None))"

definition scale10 :: "rat \<Rightarrow> int \<Rightarrow> rat" where
  "scale10 x e = (if 0 \<le> e then x * 10 ^ nat e else x / 10 ^ nat (- e))"

text \<open>
  Rounding to binary64, to nearest and ties to even: 53 significant bits, the smallest
  exponent -1022 (below it the spacing stays \<open>2 ^ -1074\<close>, down to zero), and infinity
  from \<open>2 ^ 1024\<close> on. The sign of a zero is not kept.
\<close>

fun bit_length :: "nat \<Rightarrow> nat" where
  "bit_length n = (if n = 0 then 0 else Suc (bit_length (n div 2)))"

declare bit_length.simps [simp del]

definition scale2 :: "rat \<Rightarrow> int \<Rightarrow> rat" where
  "scale2 x e = (if 0 \<le> e then x * 2 ^ nat e else x / 2 ^ nat (- e))"

definition log2_estimate :: "rat \<Rightarrow> int" where
  \<comment> \<open>for positive \<open>x\<close>, the binary logarithm rounded down, or one more\<close>
  "log2_estimate x =
     int (bit_length (nat (fst (quotient_of x)))) - int (bit_length (nat (snd (quotient_of x))))"

definition floor_log2 :: "rat \<Rightarrow> int" where
  "floor_log2 x = (if scale2 1 (log2_estimate x) \<le> x then log2_estimate x else log2_estimate x - 1)"

definition round_half_even :: "rat \<Rightarrow> int" where
  "round_half_even x =
     (if x - of_int \<lfloor>x\<rfloor> < 1 / 2 then \<lfloor>x\<rfloor>
      else if 1 / 2 < x - of_int \<lfloor>x\<rfloor> then \<lfloor>x\<rfloor> + 1
      else if even \<lfloor>x\<rfloor> then \<lfloor>x\<rfloor> else \<lfloor>x\<rfloor> + 1)"

definition quantize :: "rat \<Rightarrow> int \<Rightarrow> rat" where
  \<comment> \<open>the multiple of \<open>2 ^ q\<close> nearest to \<open>a\<close>\<close>
  "quantize a q = scale2 (of_int (round_half_even (scale2 a (- q)))) q"

definition round64_abs :: "rat \<Rightarrow> rat" where
  "round64_abs a = quantize a (max (floor_log2 a) (- 1022) - 52)"

definition round64 :: "rat \<Rightarrow> pyfloat" where
  "round64 r =
     (if r = 0 then Fin 0
      else if round64_abs \<bar>r\<bar> = 0 then Fin 0
      else if 1024 \<le> floor_log2 (round64_abs \<bar>r\<bar>) then (if r < 0 then NegInf else PosInf)
      else Fin (if r < 0 then - round64_abs \<bar>r\<bar> else round64_abs \<bar>r\<bar>))"

definition is_exp_char :: "char \<Rightarrow> bool" where
  "is_exp_char c = (c = CHR ''e'' \<or> c = CHR ''E'')"

definition py_float_str :: "string \<Rightarrow> pyfloat option" where
  \<comment> \<open>\<open>float(s)\<close> for a string; None where Python raises ValueError\<close>
  "py_float_str s =
     (let (neg, body) = split_sign (py_strip s); low = str_lower body in
      if low = ''inf'' \<or> low = ''infinity'' then Some (if neg then NegInf else PosInf)
      else if low = ''nan'' then Some NaNf
      else (case parse_mantissa (takeWhile (\<lambda>c. \<not> is_exp_char c) body) of
          None \<Rightarrow> None
        | Some m \<Rightarrow> (case parse_exponent (dropWhile (\<lambda>c. \<not> is_exp_char c) body) of
            None \<Rightarrow> None
          | Some e \<Rightarrow> Some (round64 (scale10 (if neg then - m else m) e)))))"

definition py_int_str :: "string \<Rightarrow> int option" where
  \<comment> \<open>\<open>int(s)\<close> for a string, base 10; None where Python raises ValueError\<close>
  "py_int_str s =
     (let (neg, body) = split_sign (py_strip s) in
      if digitpart body then Some (if neg then - int (digits_val body) else int (digits_val body))
      else None)"

subsection \<open>Text as \<open>repr\<close> prints it\<close>

definition repr_char :: "char \<Rightarrow> char \<Rightarrow> string" where
  \<comment> \<open>one character between quotes \<open>q\<close>\<close>
  "repr_char q c =
     (if c = CHR 0x5C then [CHR 0x5C, CHR 0x5C]
      else if c = q then [CHR 0x5C, q]
      else if c = CHR 0x0A then [CHR 0x5C, CHR ''n'']
      else if c = CHR 0x0D then [CHR 0x5C, CHR ''r'']
      else if c = CHR 0x09 then [CHR 0x5C, CHR ''t'']
      else if (of_char c :: nat) < 32 \<or> (of_char c :: nat) = 127
        then [CHR 0x5C, CHR ''x'', hex_digit ((of_char c :: nat) div 16), hex_digit ((of_char c :: nat) mod 16)]
      else [c])"

definition py_repr :: "string \<Rightarrow> string" where
  \<comment> \<open>\<open>repr(s)\<close>: double quotes when the text holds a single quote and no double quote,
    single quotes otherwise; the quote in use, the backslash and control characters escaped\<close>
  "py_repr s =
     (if CHR 0x27 \<in> set s \<and> CHR 0x22 \<notin> set s
      then [CHR 0x22] @ concat (map (repr_char (CHR 0x22)) s) @ [CHR 0x22]
      else [CHR 0x27] @ concat (map (repr_char (CHR 0x27)) s) @ [CHR 0x27])"

definition quoted :: "string \<Rightarrow> string" where
  \<comment> \<open>a type name as error messages quote it\<close>
  "quoted s = [CHR 0x27] @ s @ [CHR 0x27]"

section \<open>Cells, field values and exceptions\<close>

text \<open>
  What a frame holds in one cell: text, an integer, a float, a boolean, a timestamp
  (nanoseconds since the epoch) or NaT. A cell that is missing in the frame as parsed is
  \<open>None\<close> there. \<open>row.get\<close> gives the cell under a label, or a Series of cells when several
  columns carry the label.
\<close>

datatype cell = CStr string | CInt int | CFloat pyfloat | CBool bool | CTime int | CNaT
  | CSeries "cell list"

text \<open>The values a record dictionary holds, Python's \<open>None\<close> among them.\<close>

datatype pyval = VNone | VStr string | VInt int | VFloat pyfloat | VBool bool | VTime int | VNaT
  | VSeries "pyval list"

text \<open>An exception is kept by its class and its message, \<open>str(e)\<close>.\<close>

datatype exn = ValueError string | TypeError string | OverflowError string | AttributeError string
  | StorageError string | FormatError string

fun exn_str :: "exn \<Rightarrow> string" where
  "exn_str (ValueError m) = m"
| "exn_str (TypeError m) = m"
| "exn_str (OverflowError m) = m"
| "exn_str (AttributeError m) = m"
| "exn_str (StorageError m) = m"
| "exn_str (FormatError m) = m"

text \<open>
  What the model leaves to the runtime: how a float, a timestamp and a Series print, and
  what \<open>pandas.to_datetime\<close> makes of a value that is neither empty text nor a timestamp
  nor NaT (its flexible date parser).
\<close>

record runtime =
  float_repr :: "pyfloat \<Rightarrow> string"
  time_repr :: "int \<Rightarrow> string"
  series_repr :: "cell list \<Rightarrow> string"
  parse_datetime :: "cell \<Rightarrow> exn + pyval"

fun py_str :: "runtime \<Rightarrow> cell \<Rightarrow> string" where
  \<comment> \<open>\<open>str(x)\<close>\<close>
  "py_str rt (CStr s) = s"
| "py_str rt (CInt i) = str_of_int i"
| "py_str rt (CFloat f) = float_repr rt f"
| "py_str rt (CBool b) = (if b then ''True'' else ''False'')"
| "py_str rt (CTime t) = time_repr rt t"
| "py_str rt CNaT = ''NaT''"
| "py_str rt (CSeries cs) = series_repr rt cs"

fun py_bool :: "cell \<Rightarrow> exn + bool" where
  \<comment> \<open>\<open>bool(x)\<close>, Python's truth value; that of a Series raises\<close>
  "py_bool (CStr s) = Inr (s \<noteq> [])"
| "py_bool (CInt i) = Inr (i \<noteq> 0)"
| "py_bool (CFloat f) = Inr (f \<noteq> Fin 0)"
| "py_bool (CBool b) = Inr b"
| "py_bool (CTime t) = Inr True"
| "py_bool CNaT = Inr True"
| "py_bool (CSeries cs) =
     Inl (ValueError ''The truth value of a Series is ambiguous. Use a.empty, a.bool(), a.item(), a.any() or a.all().'')"

fun py_float :: "cell \<Rightarrow> exn + pyfloat" where
  \<comment> \<open>\<open>float(x)\<close>\<close>
  "py_float (CStr s) = (case py_float_str s of
       None \<Rightarrow> Inl (ValueError (''could not convert string to float: '' @ py_repr s))
     | Some f \<Rightarrow> Inr f)"
| "py_float (CInt i) = Inr (round64 (of_int i))"
| "py_float (CFloat f) = Inr f"
| "py_float (CBool b) = Inr (Fin (if b then 1 else 0))"
| "py_float (CTime t) =
     Inl (TypeError (''float() argument must be a string or a real number, not '' @ quoted ''Timestamp''))"
| "py_float CNaT =
     Inl (TypeError (''float() argument must be a string or a real number, not '' @ quoted ''NaTType''))"
| "py_float (CSeries cs) =
     Inl (TypeError (''cannot convert the series to <class '' @ quoted ''float'' @ ''>''))"

definition trunc_rat :: "rat \<Rightarrow> int" where
  \<comment> \<open>rounding towards zero\<close>
  "trunc_rat r = (if 0 \<le> r then \<lfloor>r\<rfloor> else \<lceil>r\<rceil>)"

fun py_int :: "cell \<Rightarrow> exn + int" where
  \<comment> \<open>\<open>int(x)\<close>\<close>
  "py_int (CStr s) = (case py_int_str s of
       None \<Rightarrow> Inl (ValueError (''invalid literal for int() with base 10: '' @ py_repr s))
     | Some i \<Rightarrow> Inr i)"
| "py_int (CInt i) = Inr i"
| "py_int (CFloat (Fin r)) = Inr (trunc_rat r)"
| "py_int (CFloat NaNf) = Inl (ValueError ''cannot convert float NaN to integer'')"
| "py_int (CFloat f) = Inl (OverflowError ''cannot convert float infinity to integer'')"
| "py_int (CBool b) = Inr (if b then 1 else 0)"
| "py_int (CTime t) =
     Inl (TypeError (''int() argument must be a string, a bytes-like object or a real number, not ''
       @ quoted ''Timestamp''))"
| "py_int CNaT =
     Inl (TypeError (''int() argument must be a string, a bytes-like object or a real number, not ''
       @ quoted ''NaTType''))"
| "py_int (CSeries cs) =
     Inl (TypeError (''cannot convert the series to <class '' @ quoted ''int'' @ ''>''))"

fun to_datetime :: "runtime \<Rightarrow> cell \<Rightarrow> exn + pyval" where
  \<comment> \<open>\<open>pd.to_datetime(x)\<close>: empty text is NaT, a timestamp and NaT are themselves\<close>
  "to_datetime rt (CStr []) = Inr VNaT"
| "to_datetime rt (CTime t) = Inr (VTime t)"
| "to_datetime rt CNaT = Inr VNaT"
| "to_datetime rt c = parse_datetime rt c"

section \<open>The sheet and its cleaning\<close>

text \<open>
  A frame is the header labels and the data rows in file order, each row under its index
  label. A header label is text or a number. Every row has one cell per column.
\<close>

datatype header = HText string | HNum

record ('h, 'c) dataframe =
  columns :: "'h list"
  rows :: "(nat \<times> 'c list) list"

definition read_frame :: "header list \<Rightarrow> cell option list list \<Rightarrow> (header, cell option) dataframe" where
  \<comment> \<open>a frame as \<open>pd.read_excel\<close> returns one: the labels and cells pandas delivers, after
    its own reading of the sheet, under the index 0, 1, 2, ...\<close>
  "read_frame hdr rs = \<lparr>columns = hdr, rows = zip [0..<length rs] rs\<rparr>"

definition all_na :: "cell option list \<Rightarrow> bool" where
  "all_na cs = list_all (\<lambda>c. c = None) cs"

definition dropna_all :: "(header, cell option) dataframe \<Rightarrow> (header, cell option) dataframe" where
  \<comment> \<open>\<open>df.dropna(how='all')\<close>: the rows left keep their index labels\<close>
  "dropna_all df = df\<lparr>rows := filter (\<lambda>(i, cs). \<not> all_na cs) (rows df)\<rparr>"

definition is_text :: "header \<Rightarrow> bool" where
  "is_text h = (case h of HText s \<Rightarrow> True | HNum \<Rightarrow> False)"

definition normalize_header :: "header \<Rightarrow> string option" where
  \<comment> \<open>\<open>.str.lower().str.replace(' ', '_')\<close> on one label; a number becomes NaN, here None\<close>
  "normalize_header h = (case h of HText s \<Rightarrow> Some (str_replace_space (str_lower s)) | HNum \<Rightarrow> None)"

definition normalize_columns :: "header list \<Rightarrow> exn + string option list" where
  \<comment> \<open>\<open>df.columns.str\<close> raises unless some label is text: not so in a blank workbook, nor
    under numeric headers\<close>
  "normalize_columns hs =
     (if list_ex is_text hs then Inr (map normalize_header hs)
      else Inl (AttributeError ''Can only use .str accessor with string values!''))"

definition column_of :: "'c list list \<Rightarrow> nat \<Rightarrow> 'c list" where
  \<comment> \<open>the cells of column \<open>j\<close>, top to bottom\<close>
  "column_of rs j = concat (map (\<lambda>cs. take 1 (drop j cs)) rs)"

definition is_datetime_column :: "cell option list \<Rightarrow> bool" where
  \<comment> \<open>a column of dtype datetime64: timestamps, with or without missing cells\<close>
  "is_datetime_column cs =
     (list_ex (\<lambda>c. c \<noteq> None) cs
      \<and> list_all (\<lambda>c. case c of None \<Rightarrow> True | Some (CTime t) \<Rightarrow> True | Some _ \<Rightarrow> False) cs)"

definition fillna_cell :: "bool \<Rightarrow> cell option \<Rightarrow> cell" where
  \<comment> \<open>\<open>fillna('')\<close> on one cell: a datetime64 column does not take the text and keeps NaT\<close>
  "fillna_cell datetime c = (case c of None \<Rightarrow> (if datetime then CNaT else CStr []) | Some v \<Rightarrow> v)"

definition fillna_empty :: "nat \<Rightarrow> (nat \<times> cell option list) list \<Rightarrow> (nat \<times> cell list) list" where
  \<comment> \<open>\<open>df.fillna('')\<close> on the rows of a frame of \<open>ncols\<close> columns\<close>
  "fillna_empty ncols rs =
     (let datetimes = map (\<lambda>j. is_datetime_column (column_of (map snd rs) j)) [0..<ncols]
      in map (\<lambda>(i, cs). (i, map (\<lambda>(d, c). fillna_cell d c) (zip datetimes cs))) rs)"

definition clean_dataframe ::
  "(header, cell option) dataframe \<Rightarrow> exn + (string option, cell) dataframe" where
  "clean_dataframe df =
     (let df1 = dropna_all df in
      case normalize_columns (columns df1) of
        Inl e \<Rightarrow> Inl e
      | Inr labels \<Rightarrow> Inr \<lparr>columns = labels, rows = fillna_empty (length labels) (rows df1)\<rparr>)"

text \<open>
  \<open>df.iterrows()\<close> takes each row from \<open>df.values\<close>, one array of one dtype for the whole
  frame: where the columns are int64 and float64 together, the integers come out as floats;
  in every other mix the cells come out as they are.
\<close>

datatype dtype = Int64 | Float64 | Bool | Datetime64 | Object

definition column_dtype :: "cell list \<Rightarrow> dtype" where
  "column_dtype cs =
     (if list_all (\<lambda>c. case c of CInt i \<Rightarrow> True | _ \<Rightarrow> False) cs then Int64
      else if list_all (\<lambda>c. case c of CFloat f \<Rightarrow> True | _ \<Rightarrow> False) cs then Float64
      else if list_all (\<lambda>c. case c of CBool b \<Rightarrow> True | _ \<Rightarrow> False) cs then Bool
      else if list_all (\<lambda>c. case c of CTime t \<Rightarrow> True | CNaT \<Rightarrow> True | _ \<Rightarrow> False) cs then Datetime64
      else Object)"

definition values_are_float :: "dtype list \<Rightarrow> bool" where
  "values_are_float dts =
     (list_all (\<lambda>d. d = Int64 \<or> d = Float64) dts \<and> list_ex (\<lambda>d. d = Float64) dts)"

definition upcast_cell :: "cell \<Rightarrow> cell" where
  "upcast_cell c = (case c of CInt i \<Rightarrow> CFloat (round64 (of_int i)) | _ \<Rightarrow> c)"

type_synonym series = "(string option \<times> cell) list"

definition iterrows :: "(string option, cell) dataframe \<Rightarrow> (nat \<times> series) list" where
  \<comment> \<open>each row as its index label and a Series keyed by the column labels\<close>
  "iterrows df =
     (let dts = map (\<lambda>j. column_dtype (column_of (map snd (rows df)) j)) [0..<length (columns df)]
      in map (\<lambda>(i, cs). (i, zip (columns df) (if values_are_float dts then map upcast_cell cs else cs)))
           (rows df))"

definition row_get :: "series \<Rightarrow> string \<Rightarrow> cell option" where
  \<comment> \<open>\<open>row.get(key)\<close>: None when no column has the label, the cell when one has, and a
    Series of the cells when several have\<close>
  "row_get row k =
     (case map snd (filter (\<lambda>(l, c). l = Some k) row) of
        [] \<Rightarrow> None
      | [c] \<Rightarrow> Some c
      | cs \<Rightarrow> Some (CSeries cs))"

section \<open>Building one record from one row\<close>

text \<open>
  Each entry of a record dictionary is one of a few expressions over \<open>row.get\<close>. The
  default of \<open>row.get(key, default)\<close> is used only when the sheet has no column \<open>key\<close>:
  an empty cell of an existing column was filled by the cleaning step and is found.
\<close>

definition str_or :: "runtime \<Rightarrow> series \<Rightarrow> string \<Rightarrow> string \<Rightarrow> string" where
  \<comment> \<open>\<open>str(row.get(k, d))\<close> for a text default \<open>d\<close>\<close>
  "str_or rt row k d = (case row_get row k of None \<Rightarrow> d | Some c \<Rightarrow> py_str rt c)"

definition str_field :: "runtime \<Rightarrow> series \<Rightarrow> string \<Rightarrow> string \<Rightarrow> exn + pyval" where
  "str_field rt row k d = Inr (VStr (str_or rt row k d))"

definition if_truthy :: "cell \<Rightarrow> exn + pyval \<Rightarrow> exn + pyval" where
  \<comment> \<open>\<open>x if c else None\<close>: the truth value is taken first, and may raise\<close>
  "if_truthy c x = (case py_bool c of Inl e \<Rightarrow> Inl e | Inr b \<Rightarrow> if b then x else Inr VNone)"

definition str_opt :: "runtime \<Rightarrow> series \<Rightarrow> string \<Rightarrow> exn + pyval" where
  \<comment> \<open>\<open>str(row.get(k, "")) if row.get(k) else None\<close>\<close>
  "str_opt rt row k = (case row_get row k of None \<Rightarrow> Inr VNone
     | Some c \<Rightarrow> if_truthy c (Inr (VStr (py_str rt c))))"

definition float_or0 :: "series \<Rightarrow> string \<Rightarrow> exn + pyval" where
  \<comment> \<open>\<open>float(row.get(k, 0))\<close>\<close>
  "float_or0 row k = (case row_get row k of None \<Rightarrow> Inr (VFloat (Fin 0))
     | Some c \<Rightarrow> map_sum id VFloat (py_float c))"

definition float_opt :: "series \<Rightarrow> string \<Rightarrow> exn + pyval" where
  \<comment> \<open>\<open>float(row.get(k)) if row.get(k) else None\<close>\<close>
  "float_opt row k = (case row_get row k of None \<Rightarrow> Inr VNone
     | Some c \<Rightarrow> if_truthy c (map_sum id VFloat (py_float c)))"

definition int_or0 :: "series \<Rightarrow> string \<Rightarrow> exn + pyval" where
  \<comment> \<open>\<open>int(row.get(k, 0))\<close>\<close>
  "int_or0 row k = (case row_get row k of None \<Rightarrow> Inr (VInt 0)
     | Some c \<Rightarrow> map_sum id VInt (py_int c))"

definition int_opt :: "series \<Rightarrow> string \<Rightarrow> exn + pyval" where
  \<comment> \<open>\<open>int(row.get(k)) if row.get(k) else None\<close>\<close>
  "int_opt row k = (case row_get row k of None \<Rightarrow> Inr VNone
     | Some c \<Rightarrow> if_truthy c (map_sum id VInt (py_int c)))"

definition datetime_or :: "runtime \<Rightarrow> series \<Rightarrow> string \<Rightarrow> int \<Rightarrow> exn + pyval" where
  \<comment> \<open>\<open>pd.to_datetime(row.get(k, current_time))\<close>\<close>
  "datetime_or rt row k current_time = (case row_get row k of None \<Rightarrow> Inr (VTime current_time)
     | Some c \<Rightarrow> to_datetime rt c)"

definition datetime_opt :: "runtime \<Rightarrow> series \<Rightarrow> string \<Rightarrow> exn + pyval" where
  \<comment> \<open>\<open>pd.to_datetime(row.get(k)) if row.get(k) else None\<close>\<close>
  "datetime_opt rt row k = (case row_get row k of None \<Rightarrow> Inr VNone
     | Some c \<Rightarrow> if_truthy c (to_datetime rt c))"

definition bool_field :: "series \<Rightarrow> string \<Rightarrow> exn + pyval" where
  \<comment> \<open>\<open>bool(row.get(k, False))\<close>\<close>
  "bool_field row k = (case row_get row k of None \<Rightarrow> Inr (VBool False)
     | Some c \<Rightarrow> map_sum id VBool (py_bool c))"

text \<open>
  A dictionary display evaluates its entries in order; the first exception leaves it.
\<close>

fun build_dict :: "(string \<times> (exn + pyval)) list \<Rightarrow> exn + (string \<times> pyval) list" where
  "build_dict [] = Inr []"
| "build_dict ((k, r) # fs) = (case r of Inl e \<Rightarrow> Inl e
     | Inr v \<Rightarrow> (case build_dict fs of Inl e \<Rightarrow> Inl e | Inr kw \<Rightarrow> Inr ((k, v) # kw)))"

text \<open>
  In every builder \<open>current_time\<close> is the clock reading its caller took, and \<open>u j\<close> is
  the value of the \<open>j\<close>-th \<open>uuid.uuid4()\<close> the builder evaluates, in source order.
\<close>

definition payment_entries :: "runtime \<Rightarrow> series \<Rightarrow> int \<Rightarrow> (nat \<Rightarrow> nat) \<Rightarrow> (string \<times> (exn + pyval)) list" where
  "payment_entries rt row current_time u =
    [(''payment_id'', str_field rt row ''payment_id'' (''PAY-'' @ str_upper (hex8 (u 0)))),
     (''transaction_reference'', str_field rt row ''transaction_reference'' (''TXN-'' @ str_upper (hex12 (u 1)))),
     (''amount'', float_or0 row ''amount''),
     (''currency'', str_field rt row ''currency'' ''USD''),
     (''payment_method'', str_field rt row ''payment_method'' ''unknown''),
     (''payment_status'', str_field rt row ''payment_status'' ''pending''),
     (''policy_number'', str_opt rt row ''policy_number''),
     (''customer_id'', str_opt rt row ''customer_id''),
     (''agent_id'', str_opt rt row ''agent_id''),
     (''payment_date'', datetime_or rt row ''payment_date'' current_time),
     (''due_date'', datetime_opt rt row ''due_date''),
     (''description'', str_opt rt row ''description''),
     (''processing_fee'', float_or0 row ''processing_fee''),
     (''is_recurring'', bool_field row ''is_recurring''),
     (''is_late_payment'', bool_field row ''is_late_payment'')]"

definition receipt_entries :: "runtime \<Rightarrow> series \<Rightarrow> int \<Rightarrow> (nat \<Rightarrow> nat) \<Rightarrow> (string \<times> (exn + pyval)) list" where
  "receipt_entries rt row current_time u =
    [(''receipt_number'', str_field rt row ''receipt_number'' (''RCP-'' @ str_upper (hex8 (u 0)))),
     (''payment_id'', str_field rt row ''payment_id'' (''PAY-'' @ str_upper (hex8 (u 1)))),
     (''amount'', float_or0 row ''amount''),
     (''currency'', str_field rt row ''currency'' ''USD''),
     (''receipt_date'', datetime_or rt row ''receipt_date'' current_time),
     (''policy_number'', str_opt rt row ''policy_number''),
     (''customer_id'', str_opt rt row ''customer_id''),
     (''customer_name'', str_field rt row ''customer_name'' ''Unknown Customer''),
     (''customer_email'', str_opt rt row ''customer_email''),
     (''description'', str_opt rt row ''description''),
     (''payment_method'', str_field rt row ''payment_method'' ''unknown''),
     (''receipt_status'', str_field rt row ''receipt_status'' ''generated''),
     (''email_sent'', bool_field row ''email_sent'')]"

definition policy_entries :: "runtime \<Rightarrow> series \<Rightarrow> int \<Rightarrow> (nat \<Rightarrow> nat) \<Rightarrow> (string \<times> (exn + pyval)) list" where
  "policy_entries rt row current_time u =
    [(''policy_number'', str_field rt row ''policy_number'' (''POL-'' @ str_upper (hex8 (u 0)))),
     (''policy_type'', str_field rt row ''policy_type'' ''unknown''),
     (''premium_amount'', float_or0 row ''premium_amount''),
     (''coverage_amount'', float_or0 row ''coverage_amount''),
     (''deductible'', float_or0 row ''deductible''),
     (''currency'', str_field rt row ''currency'' ''USD''),
     (''effective_date'', datetime_or rt row ''effective_date'' current_time),
     (''expiration_date'', datetime_or rt row ''expiration_date'' current_time),
     (''renewal_date'', datetime_opt rt row ''renewal_date''),
     (''customer_id'', str_field rt row ''customer_id'' (''CUST-'' @ str_upper (hex8 (u 1)))),
     (''customer_name'', str_field rt row ''customer_name'' ''Unknown Customer''),
     (''agent_id'', str_opt rt row ''agent_id''),
     (''agent_name'', str_opt rt row ''agent_name''),
     (''status'', str_field rt row ''status'' ''active''),
     (''payment_frequency'', str_field rt row ''payment_frequency'' ''monthly''),
     (''next_payment_due'', datetime_opt rt row ''next_payment_due''),
     (''description'', str_opt rt row ''description''),
     (''auto_renewal'', bool_field row ''auto_renewal''),
     (''is_group_policy'', bool_field row ''is_group_policy'')]"

definition claim_entries :: "runtime \<Rightarrow> series \<Rightarrow> int \<Rightarrow> (nat \<Rightarrow> nat) \<Rightarrow> (string \<times> (exn + pyval)) list" where
  "claim_entries rt row current_time u =
    [(''claim_number'', str_field rt row ''claim_number'' (''CLM-'' @ str_upper (hex8 (u 0)))),
     (''policy_number'', str_field rt row ''policy_number'' (''POL-'' @ str_upper (hex8 (u 1)))),
     (''claim_type'', str_field rt row ''claim_type'' ''unknown''),
     (''claim_amount'', float_or0 row ''claim_amount''),
     (''approved_amount'', float_opt row ''approved_amount''),
     (''currency'', str_field rt row ''currency'' ''USD''),
     (''incident_date'', datetime_or rt row ''incident_date'' current_time),
     (''claim_date'', datetime_or rt row ''claim_date'' current_time),
     (''processed_date'', datetime_opt rt row ''processed_date''),
     (''settlement_date'', datetime_opt rt row ''settlement_date''),
     (''customer_id'', str_field rt row ''customer_id'' (''CUST-'' @ str_upper (hex8 (u 2)))),
     (''customer_name'', str_field rt row ''customer_name'' ''Unknown Customer''),
     (''agent_id'', str_opt rt row ''agent_id''),
     (''status'', str_field rt row ''status'' ''submitted''),
     (''priority'', str_field rt row ''priority'' ''medium''),
     (''description'', str_field rt row ''description'' ''Claim description''),
     (''incident_location'', str_opt rt row ''incident_location''),
     (''adjuster_id'', str_opt rt row ''adjuster_id''),
     (''adjuster_name'', str_opt rt row ''adjuster_name''),
     (''is_fraudulent'', bool_field row ''is_fraudulent''),
     (''requires_investigation'', bool_field row ''requires_investigation''),
     (''has_attachments'', bool_field row ''has_attachments'')]"

definition customer_entries :: "runtime \<Rightarrow> series \<Rightarrow> int \<Rightarrow> (nat \<Rightarrow> nat) \<Rightarrow> (string \<times> (exn + pyval)) list" where
  "customer_entries rt row current_time u =
    (let first_name = str_or rt row ''first_name'' ''Unknown'';
         last_name = str_or rt row ''last_name'' ''Customer'';
         full_name = str_or rt row ''full_name'' (first_name @ '' '' @ last_name) in
    [(''customer_id'', str_field rt row ''customer_id'' (''CUST-'' @ str_upper (hex8 (u 0)))),
     (''customer_number'', str_opt rt row ''customer_number''),
     (''first_name'', Inr (VStr first_name)),
     (''last_name'', Inr (VStr last_name)),
     (''full_name'', Inr (VStr full_name)),
     (''date_of_birth'', datetime_opt rt row ''date_of_birth''),
     (''gender'', str_opt rt row ''gender''),
     (''email'', str_field rt row ''email'' (''customer'' @ hex8 (u 1) @ ''@example.com'')),
     (''phone'', str_opt rt row ''phone''),
     (''mobile'', str_opt rt row ''mobile''),
     (''address_line1'', str_opt rt row ''address_line1''),
     (''address_line2'', str_opt rt row ''address_line2''),
     (''city'', str_opt rt row ''city''),
     (''state'', str_opt rt row ''state''),
     (''postal_code'', str_opt rt row ''postal_code''),
     (''country'', str_opt rt row ''country''),
     (''status'', str_field rt row ''status'' ''active''),
     (''customer_type'', str_field rt row ''customer_type'' ''individual''),
     (''primary_agent_id'', str_opt rt row ''primary_agent_id''),
     (''registration_date'', datetime_or rt row ''registration_date'' current_time),
     (''last_contact_date'', datetime_opt rt row ''last_contact_date''),
     (''preferred_contact_method'', str_field rt row ''preferred_contact_method'' ''email''),
     (''credit_score'', int_opt row ''credit_score''),
     (''payment_method'', str_opt rt row ''payment_method''),
     (''notes'', str_opt rt row ''notes''),
     (''marketing_consent'', bool_field row ''marketing_consent''),
     (''is_vip'', bool_field row ''is_vip''),
     (''has_claims'', bool_field row ''has_claims'')])"

definition agent_entries :: "runtime \<Rightarrow> series \<Rightarrow> int \<Rightarrow> (nat \<Rightarrow> nat) \<Rightarrow> (string \<times> (exn + pyval)) list" where
  "agent_entries rt row current_time u =
    (let first_name = str_or rt row ''first_name'' ''Unknown'';
         last_name = str_or rt row ''last_name'' ''Agent'';
         full_name = str_or rt row ''full_name'' (first_name @ '' '' @ last_name) in
    [(''agent_id'', str_field rt row ''agent_id'' (''AGT-'' @ str_upper (hex8 (u 0)))),
     (''employee_id'', str_opt rt row ''employee_id''),
     (''license_number'', str_opt rt row ''license_number''),
     (''first_name'', Inr (VStr first_name)),
     (''last_name'', Inr (VStr last_name)),
     (''full_name'', Inr (VStr full_name)),
     (''email'', str_field rt row ''email'' (''agent'' @ hex8 (u 1) @ ''@example.com'')),
     (''phone'', str_opt rt row ''phone''),
     (''mobile'', str_opt rt row ''mobile''),
     (''hire_date'', datetime_or rt row ''hire_date'' current_time),
     (''department'', str_opt rt row ''department''),
     (''position'', str_opt rt row ''position''),
     (''manager_id'', str_opt rt row ''manager_id''),
     (''status'', str_field rt row ''status'' ''active''),
     (''agent_type'', str_field rt row ''agent_type'' ''employee''),
     (''total_policies'', int_or0 row ''total_policies''),
     (''active_policies'', int_or0 row ''active_policies''),
     (''total_premium_written'', float_or0 row ''total_premium_written''),
     (''commission_rate'', float_or0 row ''commission_rate''),
     (''total_commission_earned'', float_or0 row ''total_commission_earned''),
     (''last_commission_date'', datetime_opt rt row ''last_commission_date''),
     (''territory'', str_opt rt row ''territory''),
     (''specialization'', str_opt rt row ''specialization''),
     (''license_state'', str_opt rt row ''license_state''),
     (''license_expiry'', datetime_opt rt row ''license_expiry''),
     (''customer_satisfaction_score'', float_opt row ''customer_satisfaction_score''),
     (''performance_rating'', str_opt rt row ''performance_rating''),
     (''notes'', str_opt rt row ''notes''),
     (''is_top_performer'', bool_field row ''is_top_performer''),
     (''can_approve_claims'', bool_field row ''can_approve_claims'')])"

definition audit_log_entries :: "runtime \<Rightarrow> series \<Rightarrow> int \<Rightarrow> (nat \<Rightarrow> nat) \<Rightarrow> (string \<times> (exn + pyval)) list" where
  "audit_log_entries rt row current_time u =
    [(''log_id'', str_field rt row ''log_id'' (''LOG-'' @ str_upper (hex8 (u 0)))),
     (''session_id'', str_opt rt row ''session_id''),
     (''user_id'', str_opt rt row ''user_id''),
     (''user_email'', str_opt rt row ''user_email''),
     (''user_role'', str_opt rt row ''user_role''),
     (''action'', str_field rt row ''action'' ''UNKNOWN''),
     (''resource_type'', str_field rt row ''resource_type'' ''unknown''),
     (''resource_id'', str_opt rt row ''resource_id''),
     (''event_timestamp'', datetime_or rt row ''event_timestamp'' current_time),
     (''event_type'', str_field rt row ''event_type'' ''user_action''),
     (''severity'', str_field rt row ''severity'' ''info''),
     (''ip_address'', str_opt rt row ''ip_address''),
     (''user_agent'', str_opt rt row ''user_agent''),
     (''request_method'', str_opt rt row ''request_method''),
     (''request_url'', str_opt rt row ''request_url''),
     (''description'', str_opt rt row ''description''),
     (''error_message'', str_opt rt row ''error_message''),
     (''status'', str_field rt row ''status'' ''success''),
     (''is_sensitive'', bool_field row ''is_sensitive''),
     (''requires_review'', bool_field row ''requires_review''),
     (''correlation_id'', str_opt rt row ''correlation_id''),
     (''parent_log_id'', str_opt rt row ''parent_log_id'')]"

definition prepare_payment_data :: "runtime \<Rightarrow> series \<Rightarrow> int \<Rightarrow> (nat \<Rightarrow> nat) \<Rightarrow> exn + (string \<times> pyval) list" where
  "prepare_payment_data rt row current_time u = build_dict (payment_entries rt row current_time u)"

definition prepare_receipt_data :: "runtime \<Rightarrow> series \<Rightarrow> int \<Rightarrow> (nat \<Rightarrow> nat) \<Rightarrow> exn + (string \<times> pyval) list" where
  "prepare_receipt_data rt row current_time u = build_dict (receipt_entries rt row current_time u)"

definition prepare_policy_data :: "runtime \<Rightarrow> series \<Rightarrow> int \<Rightarrow> (nat \<Rightarrow> nat) \<Rightarrow> exn + (string \<times> pyval) list" where
  "prepare_policy_data rt row current_time u = build_dict (policy_entries rt row current_time u)"

definition prepare_claim_data :: "runtime \<Rightarrow> series \<Rightarrow> int \<Rightarrow> (nat \<Rightarrow> nat) \<Rightarrow> exn + (string \<times> pyval) list" where
  "prepare_claim_data rt row current_time u = build_dict (claim_entries rt row current_time u)"

definition prepare_customer_data :: "runtime \<Rightarrow> series \<Rightarrow> int \<Rightarrow> (nat \<Rightarrow> nat) \<Rightarrow> exn + (string \<times> pyval) list" where
  "prepare_customer_data rt row current_time u = build_dict (customer_entries rt row current_time u)"

definition prepare_agent_data :: "runtime \<Rightarrow> series \<Rightarrow> int \<Rightarrow> (nat \<Rightarrow> nat) \<Rightarrow> exn + (string \<times> pyval) list" where
  "prepare_agent_data rt row current_time u = build_dict (agent_entries rt row current_time u)"

definition prepare_audit_log_data :: "runtime \<Rightarrow> series \<Rightarrow> int \<Rightarrow> (nat \<Rightarrow> nat) \<Rightarrow> exn + (string \<times> pyval) list" where
  "prepare_audit_log_data rt row current_time u = build_dict (audit_log_entries rt row current_time u)"

definition prepare_record_data :: "runtime \<Rightarrow> int \<Rightarrow> (nat \<Rightarrow> nat) \<Rightarrow> series \<Rightarrow> string \<Rightarrow> exn + (string \<times> pyval) list" where
  \<comment> \<open>\<open>now\<close> is what \<open>datetime.now()\<close> returns in this call\<close>
  "prepare_record_data rt now u row data_type =
     (let current_time = now in
      if data_type = ''payments'' then prepare_payment_data rt row current_time u
      else if data_type = ''receipts'' then prepare_receipt_data rt row current_time u
      else if data_type = ''policies'' then prepare_policy_data rt row current_time u
      else if data_type = ''claims'' then prepare_claim_data rt row current_time u
      else if data_type = ''customers'' then prepare_customer_data rt row current_time u
      else if data_type = ''agents'' then prepare_agent_data rt row current_time u
      else if data_type = ''audit_logs'' then prepare_audit_log_data rt row current_time u
      else Inl (ValueError (''Unsupported data type: '' @ data_type)))"


section \<open>Models and the database session\<close>

datatype model = Payment | Receipt | Policy | Claim | Customer | Agent | AuditLog

definition model_mapping :: "string \<Rightarrow> model option" where
  "model_mapping = map_of
    [(''payments'', Payment), (''receipts'', Receipt), (''policies'', Policy), (''claims'', Claim),
     (''customers'', Customer), (''agents'', Agent), (''audit_logs'', AuditLog)]"

text \<open>
  The columns each model class declares (\<open>app/models/*.py\<close>). The declarative constructor
  takes a keyword for every mapped attribute and raises TypeError for any other.
\<close>

fun model_columns :: "model \<Rightarrow> string list" where
  "model_columns Payment =
    [''payment_id'', ''transaction_reference'', ''amount'', ''currency'', ''payment_method'',
     ''payment_status'', ''policy_number'', ''customer_id'', ''agent_id'', ''payment_date'',
     ''due_date'', ''description'', ''gateway_transaction_id'', ''gateway_response'',
     ''processing_fee'', ''is_recurring'', ''is_late_payment'']"
| "model_columns Receipt =
    [''receipt_number'', ''payment_id'', ''amount'', ''currency'', ''receipt_date'',
     ''policy_number'', ''customer_id'', ''customer_name'', ''customer_email'', ''description'',
     ''payment_method'', ''receipt_status'', ''email_sent'', ''email_sent_at'',
     ''receipt_file_path'', ''file_size'']"
| "model_columns Policy =
    [''policy_number'', ''policy_type'', ''premium_amount'', ''coverage_amount'', ''deductible'',
     ''currency'', ''effective_date'', ''expiration_date'', ''renewal_date'', ''customer_id'',
     ''customer_name'', ''agent_id'', ''agent_name'', ''status'', ''payment_frequency'',
     ''next_payment_due'', ''description'', ''terms_conditions'', ''auto_renewal'',
     ''is_group_policy'']"
| "model_columns Claim =
    [''claim_number'', ''policy_number'', ''claim_type'', ''claim_amount'', ''approved_amount'',
     ''currency'', ''incident_date'', ''claim_date'', ''processed_date'', ''settlement_date'',
     ''customer_id'', ''customer_name'', ''agent_id'', ''status'', ''priority'', ''description'',
     ''incident_location'', ''adjuster_id'', ''adjuster_name'', ''adjuster_notes'',
     ''settlement_method'', ''settlement_reference'', ''is_fraudulent'',
     ''requires_investigation'', ''has_attachments'']"
| "model_columns Customer =
    [''customer_id'', ''customer_number'', ''first_name'', ''last_name'', ''full_name'',
     ''date_of_birth'', ''gender'', ''email'', ''phone'', ''mobile'', ''address_line1'',
     ''address_line2'', ''city'', ''state'', ''postal_code'', ''country'', ''status'',
     ''customer_type'', ''primary_agent_id'', ''registration_date'', ''last_contact_date'',
     ''preferred_contact_method'', ''credit_score'', ''payment_method'', ''notes'',
     ''marketing_consent'', ''is_vip'', ''has_claims'']"
| "model_columns Agent =
    [''agent_id'', ''employee_id'', ''license_number'', ''first_name'', ''last_name'',
     ''full_name'', ''email'', ''phone'', ''mobile'', ''hire_date'', ''department'', ''position'',
     ''manager_id'', ''status'', ''agent_type'', ''total_policies'', ''active_policies'',
     ''total_premium_written'', ''commission_rate'', ''total_commission_earned'',
     ''last_commission_date'', ''territory'', ''specialization'', ''license_state'',
     ''license_expiry'', ''certifications'', ''customer_satisfaction_score'',
     ''performance_rating'', ''notes'', ''is_top_performer'', ''can_approve_claims'']"
| "model_columns AuditLog =
    [''log_id'', ''session_id'', ''user_id'', ''user_email'', ''user_role'', ''action'',
     ''resource_type'', ''resource_id'', ''event_timestamp'', ''event_type'', ''severity'',
     ''ip_address'', ''user_agent'', ''request_method'', ''request_url'', ''old_values'',
     ''new_values'', ''changes'', ''description'', ''error_message'', ''stack_trace'', ''status'',
     ''is_sensitive'', ''requires_review'', ''correlation_id'', ''parent_log_id'']"

fun model_name :: "model \<Rightarrow> string" where
  "model_name Payment = ''Payment''"
| "model_name Receipt = ''Receipt''"
| "model_name Policy = ''Policy''"
| "model_name Claim = ''Claim''"
| "model_name Customer = ''Customer''"
| "model_name Agent = ''Agent''"
| "model_name AuditLog = ''AuditLog''"

text \<open>A model instance: its class and the attributes the constructor was given.\<close>

type_synonym dbobj = "model \<times> (string \<times> pyval) list"

definition construct :: "model \<Rightarrow> (string \<times> pyval) list \<Rightarrow> exn + dbobj" where
  \<comment> \<open>\<open>model_class(**record_data)\<close>\<close>
  "construct m kw = (case filter (\<lambda>k. k \<notin> set (model_columns m)) (map fst kw) of
       [] \<Rightarrow> Inr (m, kw)
     | k # _ \<Rightarrow> Inl (TypeError (py_repr k @ '' is an invalid keyword argument for '' @ model_name m)))"

text \<open>
  What the program cannot decide: the clock reading and the uuid4 values of each row
  iteration, those of the audit entry, and whether the \<open>k\<close>-th \<open>db.commit()\<close> of the
  session raises.
\<close>

record world =
  clock :: "nat \<Rightarrow> int"
  uuid4 :: "nat \<Rightarrow> nat \<Rightarrow> nat"
  audit_clock :: int
  audit_uuid4 :: nat
  commit_raises :: "nat \<Rightarrow> exn option"

text \<open>
  The session: objects added and not yet committed, objects in the database, and how many
  times \<open>commit\<close> has been called.
\<close>

record session =
  pending :: "dbobj list"
  stored :: "dbobj list"
  commits :: nat

definition db_add :: "session \<Rightarrow> dbobj \<Rightarrow> session" where
  "db_add db obj = db\<lparr>pending := pending db @ [obj]\<rparr>"

definition db_commit :: "world \<Rightarrow> session \<Rightarrow> session \<times> exn option" where
  \<comment> \<open>all pending objects are written in one transaction, or none is; a commit that raises
    has rolled its transaction back, which drops the pending objects\<close>
  "db_commit w db = (case commit_raises w (commits db) of
       None \<Rightarrow> (db\<lparr>pending := [], stored := stored db @ pending db, commits := Suc (commits db)\<rparr>, None)
     | Some e \<Rightarrow> (db\<lparr>pending := [], commits := Suc (commits db)\<rparr>, Some e))"

definition db_rollback :: "session \<Rightarrow> session" where
  "db_rollback db = db\<lparr>pending := []\<rparr>"

section \<open>The import\<close>

record import_result =
  records_imported :: nat
  errors :: "string list"
  status :: string

definition row_error :: "nat \<Rightarrow> exn \<Rightarrow> string" where
  \<comment> \<open>\<open>f"Row {index + 1}: {str(e)}"\<close>\<close>
  "row_error index e = ''Row '' @ dec_of_nat (index + 1) @ '': '' @ exn_str e"

definition make_record :: "runtime \<Rightarrow> world \<Rightarrow> string \<Rightarrow> model \<Rightarrow> nat \<Rightarrow> series \<Rightarrow> exn + dbobj" where
  \<comment> \<open>the two statements of the loop body that can raise, in the \<open>n\<close>-th iteration\<close>
  "make_record rt w data_type model_class n row =
     (case prepare_record_data rt (clock w n) (uuid4 w n) row data_type of
        Inl e \<Rightarrow> Inl e
      | Inr record_data \<Rightarrow> construct model_class record_data)"

fun process_rows ::
  "runtime \<Rightarrow> world \<Rightarrow> string \<Rightarrow> model \<Rightarrow> nat \<Rightarrow> (nat \<times> series) list
    \<Rightarrow> session \<times> dbobj list \<times> string list \<Rightarrow> session \<times> dbobj list \<times> string list" where
  "process_rows rt w data_type model_class n [] st = st"
| "process_rows rt w data_type model_class n ((index, row) # rest) (db, processed_records, errs) =
     process_rows rt w data_type model_class (Suc n) rest
       (case make_record rt w data_type model_class n row of
          Inr record \<Rightarrow> (db_add db record, processed_records @ [record], errs)
        | Inl e \<Rightarrow> (db, processed_records, errs @ [row_error index e]))"

definition audit_entry :: "world \<Rightarrow> string \<Rightarrow> nat \<Rightarrow> nat \<Rightarrow> (string \<times> pyval) list" where
  "audit_entry w data_type n_imported error_count =
    [(''log_id'', VStr (''IMPORT-'' @ str_upper (hex8 (audit_uuid4 w)))),
     (''action'', VStr ''FILE_IMPORT''),
     (''resource_type'', VStr data_type),
     (''event_timestamp'', VTime (audit_clock w)),
     (''event_type'', VStr ''system_event''),
     (''severity'', VStr (if error_count = 0 then ''info'' else ''warning'')),
     (''description'', VStr (''File import completed for '' @ data_type @ '': ''
        @ dec_of_nat n_imported @ '' records imported, '' @ dec_of_nat error_count @ '' errors'')),
     (''status'', VStr (if error_count = 0 then ''success'' else ''warning''))]"

definition log_import_audit :: "world \<Rightarrow> string \<Rightarrow> nat \<Rightarrow> nat \<Rightarrow> session \<Rightarrow> session" where
  \<comment> \<open>every exception is caught and logged; the caller never sees one\<close>
  "log_import_audit w data_type n_imported error_count db =
     (case construct AuditLog (audit_entry w data_type n_imported error_count) of
        Inl e \<Rightarrow> db
      | Inr audit_log \<Rightarrow> fst (db_commit w (db_add db audit_log)))"

definition process_file ::
  "runtime \<Rightarrow> world \<Rightarrow> exn + (header, cell option) dataframe \<Rightarrow> string \<Rightarrow> session
    \<Rightarrow> session \<times> (exn + import_result)" where
  \<comment> \<open>\<open>read_excel\<close> is what \<open>pd.read_excel(file_path)\<close> returned or raised; whatever raises
    outside the row loop reaches the handler, which rolls back and raises again\<close>
  "process_file rt w read_excel data_type db =
     (case read_excel of
        Inl e \<Rightarrow> (db_rollback db, Inl e)
      | Inr df0 \<Rightarrow>
         (case clean_dataframe df0 of
            Inl e \<Rightarrow> (db_rollback db, Inl e)
          | Inr df \<Rightarrow>
             (case model_mapping data_type of
                None \<Rightarrow> (db_rollback db, Inl (ValueError (''Unsupported data type: '' @ data_type)))
              | Some model_class \<Rightarrow>
                 (let (db1, processed_records, errs) =
                        process_rows rt w data_type model_class 0 (iterrows df) (db, [], []);
                      (db2, failure) = (if processed_records \<noteq> [] then db_commit w db1 else (db1, None))
                  in case failure of
                       Some e \<Rightarrow> (db_rollback db2, Inl e)
                     | None \<Rightarrow>
                        (log_import_audit w data_type (length processed_records) (length errs) db2,
                         Inr \<lparr>records_imported = length processed_records,
                              errors = errs,
                              status = (if errs = [] then ''completed'' else ''completed_with_errors'')\<rparr>)))))"

section \<open>Field tables read off the builders\<close>

text \<open>
  The entries of the dictionary \<open>_prepare_record_data\<close> builds for a data type, before
  any of them is known to raise.
\<close>

definition record_entries ::
  "runtime \<Rightarrow> int \<Rightarrow> (nat \<Rightarrow> nat) \<Rightarrow> series \<Rightarrow> string \<Rightarrow> (string \<times> (exn + pyval)) list" where
  "record_entries rt now u row data_type =
     (if data_type = ''payments'' then payment_entries rt row now u
      else if data_type = ''receipts'' then receipt_entries rt row now u
      else if data_type = ''policies'' then policy_entries rt row now u
      else if data_type = ''claims'' then claim_entries rt row now u
      else if data_type = ''customers'' then customer_entries rt row now u
      else if data_type = ''agents'' then agent_entries rt row now u
      else if data_type = ''audit_logs'' then audit_log_entries rt row now u
      else [])"

definition id_field :: "string \<Rightarrow> string" where
  \<comment> \<open>the business identifier of each data type: the first key of its dictionary\<close>
  "id_field data_type =
     (if data_type = ''payments'' then ''payment_id''
      else if data_type = ''receipts'' then ''receipt_number''
      else if data_type = ''policies'' then ''policy_number''
      else if data_type = ''claims'' then ''claim_number''
      else if data_type = ''customers'' then ''customer_id''
      else if data_type = ''agents'' then ''agent_id''
      else if data_type = ''audit_logs'' then ''log_id''
      else [])"

definition id_prefix :: "string \<Rightarrow> string" where
  "id_prefix data_type =
     (if data_type = ''payments'' then ''PAY''
      else if data_type = ''receipts'' then ''RCP''
      else if data_type = ''policies'' then ''POL''
      else if data_type = ''claims'' then ''CLM''
      else if data_type = ''customers'' then ''CUST''
      else if data_type = ''agents'' then ''AGT''
      else if data_type = ''audit_logs'' then ''LOG''
      else [])"

definition bool_fields :: "string \<Rightarrow> string list" where
  \<comment> \<open>the keys built with \<open>bool(row.get(k, False))\<close>\<close>
  "bool_fields data_type =
     (if data_type = ''payments'' then [''is_recurring'', ''is_late_payment'']
      else if data_type = ''receipts'' then [''email_sent'']
      else if data_type = ''policies'' then [''auto_renewal'', ''is_group_policy'']
      else if data_type = ''claims'' then [''is_fraudulent'', ''requires_investigation'', ''has_attachments'']
      else if data_type = ''customers'' then [''marketing_consent'', ''is_vip'', ''has_claims'']
      else if data_type = ''agents'' then [''is_top_performer'', ''can_approve_claims'']
      else if data_type = ''audit_logs'' then [''is_sensitive'', ''requires_review'']
      else [])"

definition required_float_fields :: "string \<Rightarrow> string list" where
  \<comment> \<open>the keys built with \<open>float(row.get(k, 0))\<close>\<close>
  "required_float_fields data_type =
     (if data_type = ''payments'' then [''amount'', ''processing_fee'']
      else if data_type = ''receipts'' then [''amount'']
      else if data_type = ''policies'' then [''premium_amount'', ''coverage_amount'', ''deductible'']
      else if data_type = ''claims'' then [''claim_amount'']
      else if data_type = ''agents'' then
        [''total_premium_written'', ''commission_rate'', ''total_commission_earned'']
      else [])"

definition required_date_fields :: "string \<Rightarrow> string list" where
  \<comment> \<open>the keys built with \<open>pd.to_datetime(row.get(k, current_time))\<close>\<close>
  "required_date_fields data_type =
     (if data_type = ''payments'' then [''payment_date'']
      else if data_type = ''receipts'' then [''receipt_date'']
      else if data_type = ''policies'' then [''effective_date'', ''expiration_date'']
      else if data_type = ''claims'' then [''incident_date'', ''claim_date'']
      else if data_type = ''customers'' then [''registration_date'']
      else if data_type = ''agents'' then [''hire_date'']
      else if data_type = ''audit_logs'' then [''event_timestamp'']
      else [])"

definition built_field :: "exn + (string \<times> pyval) list \<Rightarrow> string \<Rightarrow> pyval option" where
  \<comment> \<open>\<open>record_data[k]\<close>, when the build returned a dictionary that has the key\<close>
  "built_field r k = (case r of Inl e \<Rightarrow> None | Inr kw \<Rightarrow> map_of kw k)"

fun built_rows :: "runtime \<Rightarrow> world \<Rightarrow> string \<Rightarrow> string \<Rightarrow> nat \<Rightarrow> (nat \<times> series) list \<Rightarrow> pyval option list" where
  \<comment> \<open>field \<open>k\<close> of the dictionary built in each iteration of the row loop, from iteration \<open>n\<close>\<close>
  "built_rows rt w data_type k n [] = []"
| "built_rows rt w data_type k n ((index, row) # rest) =
     built_field (prepare_record_data rt (clock w n) (uuid4 w n) row data_type) k
       # built_rows rt w data_type k (Suc n) rest"

definition built_column ::
  "runtime \<Rightarrow> world \<Rightarrow> string \<Rightarrow> (header, cell option) dataframe \<Rightarrow> string \<Rightarrow> pyval option list" where
  \<comment> \<open>the same over a parsed sheet, as \<open>process_file\<close> cleans and iterates it\<close>
  "built_column rt w data_type df0 k =
     (case clean_dataframe df0 of
        Inl e \<Rightarrow> []
      | Inr df \<Rightarrow> built_rows rt w data_type k 0 (iterrows df))"

section \<open>Sample runs\<close>

text \<open>
  A runtime whose date parser takes integers only and which prints whole floats, a world
  whose clock advances by one per row and whose commits succeed, and one whose first
  commit raises.
\<close>

definition sample_runtime :: runtime where
  "sample_runtime =
     \<lparr>float_repr = (\<lambda>f. case f of Fin r \<Rightarrow> str_of_int \<lfloor>r\<rfloor> @ ''.0'' | PosInf \<Rightarrow> ''inf''
          | NegInf \<Rightarrow> ''-inf'' | NaNf \<Rightarrow> ''nan''),
      time_repr = (\<lambda>t. ''2024-01-01 00:00:00''),
      series_repr = (\<lambda>cs. ''dtype: object''),
      parse_datetime = (\<lambda>c. case c of CInt i \<Rightarrow> Inr (VTime i)
          | _ \<Rightarrow> Inl (ValueError ''Unknown datetime string format''))\<rparr>"

definition sample_world :: world where
  "sample_world = \<lparr>clock = (\<lambda>n. 1000 + int n), uuid4 = (\<lambda>n j. 16 * n + j),
     audit_clock = 2000, audit_uuid4 = 255, commit_raises = (\<lambda>k. None)\<rparr>"

definition failing_world :: world where
  "failing_world = sample_world\<lparr>commit_raises :=
     (\<lambda>k. if k = 0 then Some (StorageError ''UNIQUE constraint failed'') else None)\<rparr>"

definition new_session :: session where
  "new_session = \<lparr>pending = [], stored = [], commits = 0\<rparr>"

definition payments_sheet :: "(header, cell option) dataframe" where
  \<comment> \<open>four data rows: a good one, a blank one, one with text for the amount, one with the
    amount cell empty\<close>
  "payments_sheet = read_frame [HText ''Payment ID'', HText ''Amount'']
     [[Some (CStr ''P1''), Some (CInt 10)],
      [None, None],
      [Some (CStr ''P3''), Some (CStr ''abc'')],
      [Some (CStr ''P4''), None]]"

definition bad_payments_sheet :: "(header, cell option) dataframe" where
  \<comment> \<open>every row fails\<close>
  "bad_payments_sheet = read_frame [HText ''Amount''] [[Some (CStr ''ten'')], [Some (CStr ''abc'')]]"

definition id_only_sheet :: "(header, cell option) dataframe" where
  \<comment> \<open>two payments, no date column\<close>
  "id_only_sheet = read_frame [HText ''Payment ID''] [[Some (CStr ''P1'')], [Some (CStr ''P2'')]]"

definition blank_id_sheet :: "(header, cell option) dataframe" where
  \<comment> \<open>a payment whose identifier cell is empty\<close>
  "blank_id_sheet = read_frame [HText ''Payment ID'', HText ''Currency''] [[None, Some (CStr ''EUR'')]]"

definition blank_amount_sheet :: "(header, cell option) dataframe" where
  \<comment> \<open>a payment whose amount cell is empty\<close>
  "blank_amount_sheet = read_frame [HText ''Payment ID'', HText ''Amount''] [[Some (CStr ''P1''), None]]"

definition one_payment_sheet :: "(header, cell option) dataframe" where
  \<comment> \<open>one payment: the identifier has a space on each side, the flag is the text "no"\<close>
  "one_payment_sheet = read_frame [HText ''Payment ID'', HText ''Is Recurring'']
     [[Some (CStr '' P1 ''), Some (CStr ''no'')]]"

definition row_p1 :: series where
  \<comment> \<open>its only row, cleaned\<close>
  "row_p1 = [(Some ''payment_id'', CStr '' P1 ''), (Some ''is_recurring'', CStr ''no'')]"

definition dict_p1 :: "(string \<times> pyval) list" where
  \<comment> \<open>the dictionary built from it in iteration 0 of the sample world\<close>
  "dict_p1 =
    [(''payment_id'', VStr '' P1 ''),
     (''transaction_reference'', VStr ''TXN-000000000000''),
     (''amount'', VFloat (Fin 0)),
     (''currency'', VStr ''USD''),
     (''payment_method'', VStr ''unknown''),
     (''payment_status'', VStr ''pending''),
     (''policy_number'', VNone),
     (''customer_id'', VNone),
     (''agent_id'', VNone),
     (''payment_date'', VTime 1000),
     (''due_date'', VNone),
     (''description'', VNone),
     (''processing_fee'', VFloat (Fin 0)),
     (''is_recurring'', VBool True),
     (''is_late_payment'', VBool False)]"

definition flags_sheet :: "(header, cell option) dataframe" where
  \<comment> \<open>the flag as a boolean, a number, text, and empty\<close>
  "flags_sheet = read_frame [HText ''Payment ID'', HText ''Is Recurring'']
     [[Some (CStr ''P1''), Some (CBool False)],
      [Some (CStr ''P2''), Some (CInt 0)],
      [Some (CStr ''P3''), Some (CStr ''false'')],
      [Some (CStr ''P4''), None]]"

definition blank_email_sheet :: "(header, cell option) dataframe" where
  \<comment> \<open>a customer (or agent) whose email cell is empty\<close>
  "blank_email_sheet = read_frame [HText ''First Name'', HText ''Email''] [[Some (CStr ''Ada''), None]]"

definition duplicate_id_sheet :: "(header, cell option) dataframe" where
  \<comment> \<open>two headers that become the same label\<close>
  "duplicate_id_sheet = read_frame [HText ''Payment ID'', HText ''payment_id'']
     [[Some (CStr ''P1''), Some (CStr ''P2'')]]"

definition numeric_sheet :: "(header, cell option) dataframe" where
  \<comment> \<open>an integer identifier beside a float amount, and nothing else\<close>
  "numeric_sheet = read_frame [HText ''Payment ID'', HText ''Amount'']
     [[Some (CInt 1001), Some (CFloat (Fin (5 / 2)))]]"

definition dated_sheet :: "(header, cell option) dataframe" where
  \<comment> \<open>a due date column of timestamps with one cell empty\<close>
  "dated_sheet = read_frame [HText ''Payment ID'', HText ''Due Date'']
     [[Some (CStr ''P1''), Some (CTime 5)],
      [Some (CStr ''P2''), None]]"

definition one_payment_frame :: "(string option, cell) dataframe" where
  \<comment> \<open>\<open>one_payment_sheet\<close>, cleaned\<close>
  "one_payment_frame =
     \<lparr>columns = [Some ''payment_id'', Some ''is_recurring''], rows = [(0, [CStr '' P1 '', CStr ''no''])]\<rparr>"

definition bad_payments_frame :: "(string option, cell) dataframe" where
  \<comment> \<open>\<open>bad_payments_sheet\<close>, cleaned\<close>
  "bad_payments_frame =
     \<lparr>columns = [Some ''amount''], rows = [(0, [CStr ''ten'']), (1, [CStr ''abc''])]\<rparr>"

definition payments_result :: import_result where
  \<comment> \<open>what the import of \<open>payments_sheet\<close> returns\<close>
  "payments_result =
     \<lparr>records_imported = 1,
      errors = [''Row 3: could not convert string to float: '' @ py_repr ''abc'',
                ''Row 4: could not convert string to float: '' @ py_repr []],
      status = ''completed_with_errors''\<rparr>"

section \<open>Properties of the primitives\<close>

lemma py_float_str_empty: "py_float_str [] = None"
  by (simp add: py_float_str_def py_strip_def split_sign_def str_lower_def parse_mantissa_def)

lemma py_float_empty_cell:
  "py_float (CStr []) = Inl (ValueError (''could not convert string to float: '' @ py_repr []))"
  by (simp add: py_float_str_empty)

lemma hex_of_length: "length (hex_of k u) = k"
  by (induction k arbitrary: u) simp_all

lemma hex_digits: "map hex_digit [0..<16] = ''0123456789abcdef''"
  by code_simp

lemma upper_hex_digits: "map upper_char (map hex_digit [0..<16]) = ''0123456789ABCDEF''"
  by code_simp

lemma hex_digit_lower: "n < 16 \<Longrightarrow> hex_digit n \<in> set ''0123456789abcdef''"
proof -
  assume "n < 16"
  then have "hex_digit n \<in> set (map hex_digit [0..<16])"
    by simp
  then show ?thesis
    by (simp only: hex_digits)
qed

lemma hex_digit_upper: "n < 16 \<Longrightarrow> upper_char (hex_digit n) \<in> set ''0123456789ABCDEF''"
proof -
  assume "n < 16"
  then have "upper_char (hex_digit n) \<in> set (map upper_char (map hex_digit [0..<16]))"
    by simp
  then show ?thesis
    by (simp only: upper_hex_digits)
qed

lemma hex_of_lower: "set (hex_of k u) \<subseteq> set ''0123456789abcdef''"
proof (induction k arbitrary: u)
  case 0
  then show ?case by simp
next
  case (Suc k)
  have "hex_digit (u mod 16) \<in> set ''0123456789abcdef''"
    by (rule hex_digit_lower) simp
  with Suc show ?case by simp
qed

lemma hex_of_upper: "set (str_upper (hex_of k u)) \<subseteq> set ''0123456789ABCDEF''"
proof (induction k arbitrary: u)
  case 0
  then show ?case by (simp add: str_upper_def)
next
  case (Suc k)
  have "upper_char (hex_digit (u mod 16)) \<in> set ''0123456789ABCDEF''"
    by (rule hex_digit_upper) simp
  with Suc show ?case by (simp add: str_upper_def)
qed

text \<open>\<open>uuid.uuid4().hex[:8]\<close> is eight lowercase hexadecimal digits, and eight uppercase ones after \<open>upper()\<close>.\<close>

lemma hex8_form: "length (hex8 u) = 8 \<and> set (hex8 u) \<subseteq> set ''0123456789abcdef''"
proof
  show "length (hex8 u) = 8"
    by (simp add: hex8_def uuid_hex_def hex_of_length)
  have "set (hex8 u) \<subseteq> set (hex_of 32 u)"
    unfolding hex8_def uuid_hex_def by (rule set_take_subset)
  with hex_of_lower[of 32 u] show "set (hex8 u) \<subseteq> set ''0123456789abcdef''"
    by blast
qed

lemma upper_hex8_form:
  "length (str_upper (hex8 u)) = 8 \<and> set (str_upper (hex8 u)) \<subseteq> set ''0123456789ABCDEF''"
proof
  show "length (str_upper (hex8 u)) = 8"
    by (simp add: str_upper_def hex8_def uuid_hex_def hex_of_length)
  have "str_upper (hex8 u) = take 8 (str_upper (hex_of 32 u))"
    by (simp add: str_upper_def hex8_def uuid_hex_def take_map)
  then have "set (str_upper (hex8 u)) \<subseteq> set (str_upper (hex_of 32 u))"
    by (simp add: set_take_subset)
  with hex_of_upper[of 32 u] show "set (str_upper (hex8 u)) \<subseteq> set ''0123456789ABCDEF''"
    by blast
qed

section \<open>Properties of the dictionary display\<close>

lemma build_dict_Inr: "build_dict fs = Inr kw \<Longrightarrow> fs = map (\<lambda>(k, v). (k, Inr v)) kw"
proof (induction fs arbitrary: kw)
  case Nil
  then show ?case by simp
next
  case (Cons f fs)
  obtain k r where f: "f = (k, r)" by (cases f)
  from Cons.prems f obtain v kw' where "r = Inr v" "build_dict fs = Inr kw'" "kw = (k, v) # kw'"
    by (auto split: sum.splits)
  with Cons.IH f show ?case by simp
qed

lemma map_of_Inr: "map_of (map (\<lambda>(k, v). (k, Inr v)) kw) k = map_option Inr (map_of kw k)"
  by (induction kw) auto

lemma build_dict_field:
  "build_dict fs = Inr kw \<Longrightarrow> map_of fs k = Some r \<Longrightarrow> \<exists>v. r = Inr v \<and> map_of kw k = Some v"
  by (auto simp: map_of_Inr dest!: build_dict_Inr)

lemma prepare_Inr_entries:
  "prepare_record_data rt now u row dt = Inr kw \<Longrightarrow> build_dict (record_entries rt now u row dt) = Inr kw"
  by (auto simp: prepare_record_data_def record_entries_def prepare_payment_data_def
      prepare_receipt_data_def prepare_policy_data_def prepare_claim_data_def
      prepare_customer_data_def prepare_agent_data_def prepare_audit_log_data_def
      split: if_splits)

lemma prepare_Inr_supported:
  assumes "prepare_record_data rt now u row dt = Inr kw"
  obtains "dt = ''payments''" | "dt = ''receipts''" | "dt = ''policies''" | "dt = ''claims''"
    | "dt = ''customers''" | "dt = ''agents''" | "dt = ''audit_logs''"
  using assms unfolding prepare_record_data_def by (auto split: if_splits)

lemma make_record_Inr:
  assumes "make_record rt w dt mc n row = Inr obj"
  obtains kw where "prepare_record_data rt (clock w n) (uuid4 w n) row dt = Inr kw" "obj = (mc, kw)"
  using assms unfolding make_record_def construct_def
  by (auto split: sum.splits list.splits)

section \<open>Entries of the record dictionaries\<close>

lemma id_entry:
  assumes "prepare_record_data rt now u row dt = Inr kw"
  shows "map_of (record_entries rt now u row dt) (id_field dt) =
     Some (str_field rt row (id_field dt) (id_prefix dt @ ''-'' @ str_upper (hex8 (u 0))))"
  using assms
proof (cases rule: prepare_Inr_supported)
  case 1
  then show ?thesis
    by (simp add: record_entries_def id_field_def id_prefix_def payment_entries_def)
next
  case 2
  then show ?thesis
    by (simp add: record_entries_def id_field_def id_prefix_def receipt_entries_def)
next
  case 3
  then show ?thesis
    by (simp add: record_entries_def id_field_def id_prefix_def policy_entries_def)
next
  case 4
  then show ?thesis
    by (simp add: record_entries_def id_field_def id_prefix_def claim_entries_def)
next
  case 5
  then show ?thesis
    by (simp add: record_entries_def id_field_def id_prefix_def customer_entries_def Let_def)
next
  case 6
  then show ?thesis
    by (simp add: record_entries_def id_field_def id_prefix_def agent_entries_def Let_def)
next
  case 7
  then show ?thesis
    by (simp add: record_entries_def id_field_def id_prefix_def audit_log_entries_def)
qed

lemma date_entry:
  assumes "k \<in> set (required_date_fields dt)"
  shows "map_of (record_entries rt now u row dt) k = Some (datetime_or rt row k now)"
proof -
  consider (payments) "dt = ''payments''" | (receipts) "dt = ''receipts''"
    | (policies) "dt = ''policies''" | (claims) "dt = ''claims''"
    | (customers) "dt = ''customers''" | (agents) "dt = ''agents''"
    | (audit_logs) "dt = ''audit_logs''"
    using assms unfolding required_date_fields_def by (auto split: if_splits)
  then show ?thesis
  proof cases
    case payments
    with assms have "k = ''payment_date''"
      by (simp add: required_date_fields_def)
    then show ?thesis using payments
      by (simp add: record_entries_def payment_entries_def)
  next
    case receipts
    with assms have "k = ''receipt_date''"
      by (simp add: required_date_fields_def)
    then show ?thesis using receipts
      by (simp add: record_entries_def receipt_entries_def)
  next
    case policies
    with assms have "k = ''effective_date'' \<or> k = ''expiration_date''"
      by (simp add: required_date_fields_def)
    then show ?thesis using policies
      by (elim disjE) (simp_all add: record_entries_def policy_entries_def)
  next
    case claims
    with assms have "k = ''incident_date'' \<or> k = ''claim_date''"
      by (simp add: required_date_fields_def)
    then show ?thesis using claims
      by (elim disjE) (simp_all add: record_entries_def claim_entries_def)
  next
    case customers
    with assms have "k = ''registration_date''"
      by (simp add: required_date_fields_def)
    then show ?thesis using customers
      by (simp add: record_entries_def customer_entries_def Let_def)
  next
    case agents
    with assms have "k = ''hire_date''"
      by (simp add: required_date_fields_def)
    then show ?thesis using agents
      by (simp add: record_entries_def agent_entries_def Let_def)
  next
    case audit_logs
    with assms have "k = ''event_timestamp''"
      by (simp add: required_date_fields_def)
    then show ?thesis using audit_logs
      by (simp add: record_entries_def audit_log_entries_def)
  qed
qed

lemma bool_entry:
  assumes "k \<in> set (bool_fields dt)"
  shows "map_of (record_entries rt now u row dt) k = Some (bool_field row k)"
proof -
  consider (payments) "dt = ''payments''" | (receipts) "dt = ''receipts''"
    | (policies) "dt = ''policies''" | (claims) "dt = ''claims''"
    | (customers) "dt = ''customers''" | (agents) "dt = ''agents''"
    | (audit_logs) "dt = ''audit_logs''"
    using assms unfolding bool_fields_def by (auto split: if_splits)
  then show ?thesis
  proof cases
    case payments
    with assms have "k = ''is_recurring'' \<or> k = ''is_late_payment''"
      by (simp add: bool_fields_def)
    then show ?thesis using payments
      by (elim disjE) (simp_all add: record_entries_def payment_entries_def)
  next
    case receipts
    with assms have "k = ''email_sent''"
      by (simp add: bool_fields_def)
    then show ?thesis using receipts
      by (simp add: record_entries_def receipt_entries_def)
  next
    case policies
    with assms have "k = ''auto_renewal'' \<or> k = ''is_group_policy''"
      by (simp add: bool_fields_def)
    then show ?thesis using policies
      by (elim disjE) (simp_all add: record_entries_def policy_entries_def)
  next
    case claims
    with assms
    have "k = ''is_fraudulent'' \<or> k = ''requires_investigation'' \<or> k = ''has_attachments''"
      by (simp add: bool_fields_def)
    then show ?thesis using claims
      by (elim disjE) (simp_all add: record_entries_def claim_entries_def)
  next
    case customers
    with assms have "k = ''marketing_consent'' \<or> k = ''is_vip'' \<or> k = ''has_claims''"
      by (simp add: bool_fields_def)
    then show ?thesis using customers
      by (elim disjE) (simp_all add: record_entries_def customer_entries_def Let_def)
  next
    case agents
    with assms have "k = ''is_top_performer'' \<or> k = ''can_approve_claims''"
      by (simp add: bool_fields_def)
    then show ?thesis using agents
      by (elim disjE) (simp_all add: record_entries_def agent_entries_def Let_def)
  next
    case audit_logs
    with assms have "k = ''is_sensitive'' \<or> k = ''requires_review''"
      by (simp add: bool_fields_def)
    then show ?thesis using audit_logs
      by (elim disjE) (simp_all add: record_entries_def audit_log_entries_def)
  qed
qed

lemma float_entry:
  assumes "k \<in> set (required_float_fields dt)"
  shows "map_of (record_entries rt now u row dt) k = Some (float_or0 row k)"
proof -
  consider (payments) "dt = ''payments''" | (receipts) "dt = ''receipts''"
    | (policies) "dt = ''policies''" | (claims) "dt = ''claims''" | (agents) "dt = ''agents''"
    using assms unfolding required_float_fields_def by (auto split: if_splits)
  then show ?thesis
  proof cases
    case payments
    with assms have "k = ''amount'' \<or> k = ''processing_fee''"
      by (simp add: required_float_fields_def)
    then show ?thesis using payments
      by (elim disjE) (simp_all add: record_entries_def payment_entries_def)
  next
    case receipts
    with assms have "k = ''amount''"
      by (simp add: required_float_fields_def)
    then show ?thesis using receipts
      by (simp add: record_entries_def receipt_entries_def)
  next
    case policies
    with assms have "k = ''premium_amount'' \<or> k = ''coverage_amount'' \<or> k = ''deductible''"
      by (simp add: required_float_fields_def)
    then show ?thesis using policies
      by (elim disjE) (simp_all add: record_entries_def policy_entries_def)
  next
    case claims
    with assms have "k = ''claim_amount''"
      by (simp add: required_float_fields_def)
    then show ?thesis using claims
      by (simp add: record_entries_def claim_entries_def)
  next
    case agents
    with assms
    have "k = ''total_premium_written'' \<or> k = ''commission_rate'' \<or> k = ''total_commission_earned''"
      by (simp add: required_float_fields_def)
    then show ?thesis using agents
      by (elim disjE) (simp_all add: record_entries_def agent_entries_def Let_def)
  qed
qed

section \<open>What the builders do when the sheet has no such column\<close>

text \<open>
  When the sheet has no identifier column, the identifier is the data type's prefix, a
  hyphen and the first eight digits of the builder's first uuid4, in upper case.
\<close>

lemma identifier_synthesized:
  assumes "prepare_record_data rt now u row dt = Inr kw"
    and "row_get row (id_field dt) = None"
  shows "map_of kw (id_field dt) = Some (VStr (id_prefix dt @ ''-'' @ str_upper (hex8 (u 0))))"
proof -
  from build_dict_field[OF prepare_Inr_entries[OF assms(1)] id_entry[OF assms(1)]] assms(2)
  show ?thesis by (auto simp: str_field_def str_or_def)
qed

lemma email_synthesized:
  assumes "prepare_record_data rt now u row dt = Inr kw"
    and "row_get row ''email'' = None"
  shows "dt = ''customers'' \<Longrightarrow> map_of kw ''email'' = Some (VStr (''customer'' @ hex8 (u 1) @ ''@example.com''))"
    and "dt = ''agents'' \<Longrightarrow> map_of kw ''email'' = Some (VStr (''agent'' @ hex8 (u 1) @ ''@example.com''))"
proof -
  assume dt: "dt = ''customers''"
  have "map_of (record_entries rt now u row dt) ''email'' =
      Some (str_field rt row ''email'' (''customer'' @ hex8 (u 1) @ ''@example.com''))"
    by (simp add: dt record_entries_def customer_entries_def Let_def)
  from build_dict_field[OF prepare_Inr_entries[OF assms(1)] this] assms(2)
  show "map_of kw ''email'' = Some (VStr (''customer'' @ hex8 (u 1) @ ''@example.com''))"
    by (auto simp: str_field_def str_or_def)
next
  assume dt: "dt = ''agents''"
  have "map_of (record_entries rt now u row dt) ''email'' =
      Some (str_field rt row ''email'' (''agent'' @ hex8 (u 1) @ ''@example.com''))"
    by (simp add: dt record_entries_def agent_entries_def Let_def)
  from build_dict_field[OF prepare_Inr_entries[OF assms(1)] this] assms(2)
  show "map_of kw ''email'' = Some (VStr (''agent'' @ hex8 (u 1) @ ''@example.com''))"
    by (auto simp: str_field_def str_or_def)
qed

text \<open>
  A required number is 0 when the sheet has no such column, and text that \<open>float\<close> does not
  read makes the build of the row raise. The empty text is such text.
\<close>

lemma required_float_default:
  assumes "prepare_record_data rt now u row dt = Inr kw"
    and "k \<in> set (required_float_fields dt)"
    and "row_get row k = None"
  shows "map_of kw k = Some (VFloat (Fin 0))"
proof -
  from build_dict_field[OF prepare_Inr_entries[OF assms(1)] float_entry[OF assms(2)]] assms(3)
  show ?thesis by (auto simp: float_or0_def)
qed

lemma required_float_text_rejected:
  assumes "k \<in> set (required_float_fields dt)"
    and "row_get row k = Some (CStr s)"
    and "py_float_str s = None"
  shows "\<exists>e. prepare_record_data rt now u row dt = Inl e"
proof (cases "prepare_record_data rt now u row dt")
  case (Inl e)
  then show ?thesis by blast
next
  case (Inr kw)
  from build_dict_field[OF prepare_Inr_entries[OF Inr] float_entry[OF assms(1)]] assms(2,3)
  show ?thesis by (auto simp: float_or0_def)
qed

text \<open>An optional number is \<open>None\<close> when the sheet has no such column and when the cell is empty.\<close>

lemma optional_number_none:
  assumes "row_get row k = None \<or> row_get row k = Some (CStr [])"
  shows "float_opt row k = Inr VNone \<and> int_opt row k = Inr VNone"
  using assms by (auto simp: float_opt_def int_opt_def if_truthy_def)

section \<open>Properties of the row loop\<close>


text \<open>
  The loop only appends: to the staged records, to the errors and to the session's pending
  objects, one entry per row in exactly one of the first two.
\<close>

lemma process_rows_shape:
  "process_rows rt w dt mc n rs (db, ps, es) = (db', ps', es') \<Longrightarrow>
   \<exists>qs fs. ps' = ps @ qs \<and> es' = es @ fs \<and> length qs + length fs = length rs
     \<and> db' = db\<lparr>pending := pending db @ qs\<rparr>"
proof (induction rs arbitrary: n db ps es)
  case Nil
  then show ?case by simp
next
  case (Cons r rs)
  obtain index row where r: "r = (index, row)" by (cases r)
  show ?case
  proof (cases "make_record rt w dt mc n row")
    case (Inl e)
    with Cons.prems r
    have "process_rows rt w dt mc (Suc n) rs (db, ps, es @ [row_error index e]) = (db', ps', es')"
      by simp
    from Cons.IH[OF this] show ?thesis by auto
  next
    case (Inr obj)
    with Cons.prems r
    have "process_rows rt w dt mc (Suc n) rs (db_add db obj, ps @ [obj], es) = (db', ps', es')"
      by simp
    from Cons.IH[OF this] show ?thesis by (auto simp: db_add_def)
  qed
qed

lemma construct_audit_entry:
  "construct AuditLog (audit_entry w dt a b) = Inr (AuditLog, audit_entry w dt a b)"
  by (simp add: construct_def audit_entry_def)

lemma model_mapping_payments: "model_mapping ''payments'' = Some Payment"
  by (simp add: model_mapping_def)

lemma prepare_p1:
  "prepare_record_data sample_runtime (clock sample_world 0) (uuid4 sample_world 0) row_p1 ''payments''
     = Inr dict_p1"
  by code_simp

lemma make_record_p1:
  "make_record sample_runtime sample_world ''payments'' Payment 0 row_p1 = Inr (Payment, dict_p1)"
  by code_simp

section \<open>Properties of the cleaning step\<close>

lemma fillna_empty_labels: "map fst (fillna_empty n rs) = map fst rs"
  by (simp add: fillna_empty_def Let_def case_prod_unfold comp_def)

lemma clean_rows_length:
  assumes "clean_dataframe df0 = Inr df"
  shows "length (rows df) = length (filter (\<lambda>(i, cs). \<not> all_na cs) (rows df0))"
proof -
  from assms obtain labels
    where "df = \<lparr>columns = labels, rows = fillna_empty (length labels) (rows (dropna_all df0))\<rparr>"
    by (auto simp: clean_dataframe_def Let_def split: sum.splits)
  then have "map fst (rows df) = map fst (rows (dropna_all df0))"
    by (simp add: fillna_empty_labels)
  then have "length (rows df) = length (rows (dropna_all df0))"
    by (rule map_eq_imp_length_eq)
  then show ?thesis by (simp add: dropna_all_def)
qed

lemma iterrows_length: "length (iterrows df) = length (rows df)"
  by (simp add: iterrows_def Let_def)

text \<open>
  The index label a cleaned row carries is its position among the data rows of the file,
  blank rows counted: \<open>dropna\<close> does not renumber.
\<close>

lemma clean_row_label:
  assumes "clean_dataframe (read_frame hdr rs) = Inr df"
    and "(i, cs) \<in> set (rows df)"
  shows "i < length rs \<and> \<not> all_na (rs ! i)"
proof -
  from assms(1) obtain labels
    where "df = \<lparr>columns = labels,
        rows = fillna_empty (length labels) (rows (dropna_all (read_frame hdr rs)))\<rparr>"
    by (auto simp: clean_dataframe_def Let_def split: sum.splits)
  then have "map fst (rows df) = map fst (rows (dropna_all (read_frame hdr rs)))"
    by (simp add: fillna_empty_labels)
  moreover from assms(2) have "i \<in> set (map fst (rows df))"
    by force
  ultimately obtain cs0 where "(i, cs0) \<in> set (zip [0..<length rs] rs)" and "\<not> all_na cs0"
    by (auto simp: dropna_all_def read_frame_def)
  then show ?thesis by (auto simp: set_zip)
qed

text \<open>
  Where no header is text the cleaning step raises, and the import leaves by the handler:
  a rollback, the exception, and no audit entry.
\<close>

lemma headers_without_text_raise:
  assumes "\<not> list_ex is_text (columns df0)"
  shows "clean_dataframe df0 = Inl (AttributeError ''Can only use .str accessor with string values!'')"
  using assms by (simp add: clean_dataframe_def dropna_all_def normalize_columns_def Let_def)

lemma cleaning_raises_no_audit:
  assumes "clean_dataframe df0 = Inl e"
  shows "process_file rt w (Inr df0) data_type db = (db_rollback db, Inl e)"
  using assms by (simp add: process_file_def)

lemma blank_workbook_raises:
  "process_file sample_runtime sample_world (Inr (read_frame [] [])) ''payments'' new_session =
     (new_session, Inl (AttributeError ''Can only use .str accessor with string values!''))"
  by code_simp

text \<open>
  Two headers that become the same label give a Series under it; an integer beside floats
  only comes out of \<open>iterrows\<close> as a float; an empty cell among timestamps stays NaT, which
  is true, so that the optional date is built as NaT.
\<close>

lemma duplicate_labels_give_series:
  "row_get [(Some k, a), (Some k, b)] k = Some (CSeries [a, b])"
  by (simp add: row_get_def)

lemma duplicate_identifier_is_series_text:
  "built_column sample_runtime sample_world ''payments'' duplicate_id_sheet ''payment_id'' =
     [Some (VStr (series_repr sample_runtime [CStr ''P1'', CStr ''P2'']))]"
  by code_simp

lemma numeric_row_upcast:
  "built_column sample_runtime sample_world ''payments'' numeric_sheet ''payment_id'' =
     [Some (VStr ''1001.0'')]"
  by code_simp

lemma blank_date_cell_is_nat:
  "built_column sample_runtime sample_world ''payments'' dated_sheet ''due_date'' =
     [Some (VTime 5), Some VNaT]"
  by code_simp

section \<open>The claims\<close>

text \<open>
  C1. The claim fails where the batch commit raises: the exception leaves the \<open>try\<close>
  block before the audit call, the handler rolls back and re-raises, and no audit entry is
  added or committed. What holds, for a parsed file whose cleaning returns a frame, a
  supported data type and a session with nothing pending: if the batch commit raises, the
  error is returned, nothing is stored and \<open>commit\<close> was called once; otherwise the audit
  emitter runs once after the loop, one audit entry is stored behind the imported records
  when its own commit succeeds, and none when that commit raises, which the caller does
  not see. (A parsed file whose cleaning raises takes the handler's path as well, see
  \<open>cleaning_raises_no_audit\<close>.)
\<close>

theorem audit_emitted_once:
  assumes "clean_dataframe df0 = Inr df"
    and "model_mapping data_type = Some mc"
    and "pending db = []"
    and "process_rows rt w data_type mc 0 (iterrows df) (db, [], []) = (db1, recs, errs)"
  shows "process_file rt w (Inr df0) data_type db =
     (case (if recs = [] then None else commit_raises w (commits db)) of
        Some e \<Rightarrow> (db\<lparr>commits := Suc (commits db)\<rparr>, Inl e)
      | None \<Rightarrow>
         (let k = (if recs = [] then commits db else Suc (commits db));
              a = (AuditLog, audit_entry w data_type (length recs) (length errs))
          in (db\<lparr>stored := stored db @ recs @ (if commit_raises w k = None then [a] else []),
                 commits := Suc k\<rparr>,
              Inr \<lparr>records_imported = length recs, errors = errs,
                   status = (if errs = [] then ''completed'' else ''completed_with_errors'')\<rparr>)))"
proof -
  from process_rows_shape[OF assms(4)] assms(3)
  have db1: "db1 = db\<lparr>pending := recs\<rparr>" by auto
  show ?thesis
    using assms
    by (auto simp: process_file_def Let_def db1 db_commit_def db_add_def db_rollback_def
        log_import_audit_def construct_audit_entry split: option.splits)
qed

theorem audit_emitted_once_witness:
  "process_file sample_runtime sample_world (Inr one_payment_sheet) ''payments'' new_session =
     (\<lparr>pending = [],
       stored = [(Payment, dict_p1), (AuditLog, audit_entry sample_world ''payments'' 1 0)],
       commits = 2\<rparr>,
      Inr \<lparr>records_imported = 1, errors = [], status = ''completed''\<rparr>)"
proof -
  have cleaned: "clean_dataframe one_payment_sheet = Inr one_payment_frame"
    by code_simp
  have fresh: "pending new_session = []"
    by (simp add: new_session_def)
  have loop: "process_rows sample_runtime sample_world ''payments'' Payment 0
      (iterrows one_payment_frame) (new_session, [], []) =
      (new_session\<lparr>pending := [(Payment, dict_p1)]\<rparr>, [(Payment, dict_p1)], [])"
    by code_simp
  from audit_emitted_once[OF cleaned model_mapping_payments fresh loop] show ?thesis
    by (simp add: sample_world_def new_session_def)
qed

theorem audit_skipped_when_commit_raises:
  "process_file sample_runtime failing_world (Inr one_payment_sheet) ''payments'' new_session =
     (\<lparr>pending = [], stored = [], commits = 1\<rparr>, Inl (StorageError ''UNIQUE constraint failed''))"
  by code_simp

text \<open>
  C2. The claim fails: \<open>_prepare_record_data\<close> reads the clock in every call, so two rows
  of one import default to two readings. What holds: for a row whose record is built, every
  required date whose column the sheet does not have is the clock reading of that row's
  iteration; the defaulted required dates of one row share it. (What an empty cell of an
  existing date column becomes is not part of this statement.)
\<close>

theorem default_date_is_row_clock:
  assumes "make_record rt w dt mc n row = Inr obj"
    and "k \<in> set (required_date_fields dt)"
    and "row_get row k = None"
  shows "map_of (snd obj) k = Some (VTime (clock w n))"
proof -
  from assms(1) obtain kw
    where kw: "prepare_record_data rt (clock w n) (uuid4 w n) row dt = Inr kw" and obj: "obj = (mc, kw)"
    by (rule make_record_Inr)
  from build_dict_field[OF prepare_Inr_entries[OF kw] date_entry[OF assms(2)]] assms(3) obj
  show ?thesis by (auto simp: datetime_or_def)
qed

theorem default_date_is_row_clock_witness:
  "make_record sample_runtime sample_world ''payments'' Payment 0 row_p1 = Inr (Payment, dict_p1)
   \<and> map_of dict_p1 ''payment_date'' = Some (VTime 1000)"
proof -
  have field: "''payment_date'' \<in> set (required_date_fields ''payments'')"
    by (simp add: required_date_fields_def)
  have absent: "row_get row_p1 ''payment_date'' = None"
    by (simp add: row_get_def row_p1_def)
  from default_date_is_row_clock[OF make_record_p1 field absent] make_record_p1
  show ?thesis by (simp add: sample_world_def)
qed

theorem default_dates_differ_between_rows:
  "built_column sample_runtime sample_world ''payments'' id_only_sheet ''payment_date'' =
     [Some (VTime 1000), Some (VTime 1001)]"
  by code_simp

text \<open>
  C3. An empty identifier cell in a sheet that has the identifier column: the cleaning step
  fills it with the empty text, \<open>row.get\<close> finds it, the default is not used, and the record
  is built and imported with an empty identifier.
\<close>

theorem blank_identifier_cell_kept:
  "built_column sample_runtime sample_world ''payments'' blank_id_sheet ''payment_id'' = [Some (VStr [])]
   \<and> snd (process_file sample_runtime sample_world (Inr blank_id_sheet) ''payments'' new_session) =
       Inr \<lparr>records_imported = 1, errors = [], status = ''completed''\<rparr>"
  by code_simp

text \<open>
  C4. For every import that returns a result, the file was cleaned, and \<open>records_imported\<close>
  plus the number of errors is the number of rows left after cleaning, which is the number
  of parsed rows that are not entirely empty: every cleaned row lands in exactly one of the
  two lists.
\<close>

theorem rows_accounted:
  assumes "snd (process_file rt w (Inr df0) data_type db) = Inr res"
  shows "\<exists>df. clean_dataframe df0 = Inr df
     \<and> records_imported res + length (errors res) = length (rows df)
     \<and> length (rows df) = length (filter (\<lambda>(i, cs). \<not> all_na cs) (rows df0))"
proof -
  from assms obtain df where df: "clean_dataframe df0 = Inr df"
    by (auto simp: process_file_def split: sum.splits)
  from assms df obtain mc where mc: "model_mapping data_type = Some mc"
    by (auto simp: process_file_def split: option.splits)
  obtain db1 ps es where loop:
    "process_rows rt w data_type mc 0 (iterrows df) (db, [], []) = (db1, ps, es)"
    by (metis prod_cases3)
  from assms df mc loop have res: "records_imported res = length ps" "errors res = es"
    by (auto simp: process_file_def Let_def split: option.splits prod.splits if_splits)
  from process_rows_shape[OF loop]
  have "length ps + length es = length (iterrows df)"
    by auto
  with res have "records_imported res + length (errors res) = length (rows df)"
    by (simp add: iterrows_length)
  with df clean_rows_length[OF df] show ?thesis by blast
qed

theorem rows_accounted_witness:
  "snd (process_file sample_runtime sample_world (Inr payments_sheet) ''payments'' new_session) =
     Inr payments_result
   \<and> records_imported payments_result + length (errors payments_result) = 3
   \<and> length (filter (\<lambda>(i, cs). \<not> all_na cs) (rows payments_sheet)) = 3
   \<and> length (rows payments_sheet) = 4"
proof -
  have run: "snd (process_file sample_runtime sample_world (Inr payments_sheet) ''payments'' new_session) =
     Inr payments_result"
    by code_simp
  have parsed: "length (rows payments_sheet) = 4"
    by code_simp
  have counted: "records_imported payments_result + length (errors payments_result) = 3"
    by (simp add: payments_result_def)
  from rows_accounted[OF run] counted
  have "length (filter (\<lambda>(i, cs). \<not> all_na cs) (rows payments_sheet)) = 3"
    by auto
  with run parsed counted show ?thesis by blast
qed

text \<open>
  C5. When the row loop has run and the batch commit does not raise (or nothing was staged,
  so that no commit is made), the import returns, and its status is "completed" exactly
  when the error list is empty and "completed_with_errors" otherwise, also when no record
  was staged.
\<close>

theorem final_status:
  assumes "clean_dataframe df0 = Inr df"
    and "model_mapping data_type = Some mc"
    and "process_rows rt w data_type mc 0 (iterrows df) (db, [], []) = (db1, recs, errs)"
    and "recs = [] \<or> commit_raises w (commits db1) = None"
  shows "snd (process_file rt w (Inr df0) data_type db) =
     Inr \<lparr>records_imported = length recs, errors = errs,
          status = (if errs = [] then ''completed'' else ''completed_with_errors'')\<rparr>"
  using assms by (auto simp: process_file_def Let_def db_commit_def split: option.splits prod.splits)

theorem final_status_witness:
  "snd (process_file sample_runtime sample_world (Inr bad_payments_sheet) ''payments'' new_session) =
     Inr \<lparr>records_imported = 0,
          errors = [''Row 1: could not convert string to float: '' @ py_repr ''ten'',
                    ''Row 2: could not convert string to float: '' @ py_repr ''abc''],
          status = ''completed_with_errors''\<rparr>"
proof -
  have cleaned: "clean_dataframe bad_payments_sheet = Inr bad_payments_frame"
    by code_simp
  have loop: "process_rows sample_runtime sample_world ''payments'' Payment 0
      (iterrows bad_payments_frame) (new_session, [], []) =
      (new_session, [],
       [''Row 1: could not convert string to float: '' @ py_repr ''ten'',
        ''Row 2: could not convert string to float: '' @ py_repr ''abc''])"
    by code_simp
  have "[] = ([] :: dbobj list) \<or> commit_raises sample_world (commits new_session) = None"
    by simp
  from final_status[OF cleaned model_mapping_payments loop this] show ?thesis by simp
qed



text \<open>
  C7. An empty amount cell in a sheet that has the amount column: \<open>float('')\<close> raises, and
  the row is reported as an error instead of getting the amount 0.
\<close>

theorem blank_amount_cell_rejected:
  "snd (process_file sample_runtime sample_world (Inr blank_amount_sheet) ''payments'' new_session) =
     Inr \<lparr>records_imported = 0,
          errors = [''Row 1: could not convert string to float: '' @ py_repr []],
          status = ''completed_with_errors''\<rparr>"
  by code_simp

text \<open>
  C8. The claim fails: nothing in the import trims. What holds: when \<open>row.get\<close> finds a
  value that is not empty (neither the empty text nor NaT) under the identifier label, the
  built identifier is \<open>str\<close> of that value, which for a text cell is the text itself,
  whitespace included.
\<close>

theorem identifier_kept_verbatim:
  assumes "prepare_record_data rt now u row dt = Inr kw"
    and "row_get row (id_field dt) = Some c"
    and "c \<noteq> CStr []" and "c \<noteq> CNaT"
  shows "map_of kw (id_field dt) = Some (VStr (py_str rt c))"
proof -
  from build_dict_field[OF prepare_Inr_entries[OF assms(1)] id_entry[OF assms(1)]] assms(2)
  show ?thesis by (auto simp: str_field_def str_or_def)
qed

theorem identifier_kept_verbatim_witness:
  "row_get row_p1 (id_field ''payments'') = Some (CStr '' P1 '')
   \<and> map_of dict_p1 (id_field ''payments'') = Some (VStr '' P1 '')"
proof -
  have cell: "row_get row_p1 (id_field ''payments'') = Some (CStr '' P1 '')"
    by (simp add: row_get_def row_p1_def id_field_def)
  have filled: "CStr '' P1 '' \<noteq> CStr []" "CStr '' P1 '' \<noteq> CNaT"
    by simp_all
  from identifier_kept_verbatim[OF prepare_p1 cell filled] cell show ?thesis by simp
qed

theorem identifier_not_trimmed:
  "built_column sample_runtime sample_world ''payments'' one_payment_sheet ''payment_id'' =
     [Some (VStr '' P1 '')]
   \<and> py_strip '' P1 '' = ''P1''"
  by code_simp

text \<open>
  C9. Text in a flag column is true unless it is empty, so "false", "0" and "no" are true,
  and an absent column or an empty cell is false. The claim's "only" fails: a boolean cell
  holding False and a numeric cell holding zero are false as well. What holds: a flag is
  Python's truth value of its cell, and False when the sheet has no such column; a row
  with several columns under the flag's label is not built.
\<close>

theorem flag_is_truth_value:
  assumes "prepare_record_data rt now u row dt = Inr kw"
    and "k \<in> set (bool_fields dt)"
  shows "(\<forall>cs. row_get row k \<noteq> Some (CSeries cs))
   \<and> map_of kw k = Some (VBool
     (case row_get row k of
        None \<Rightarrow> False
      | Some (CStr s) \<Rightarrow> s \<noteq> []
      | Some (CInt i) \<Rightarrow> i \<noteq> 0
      | Some (CFloat f) \<Rightarrow> f \<noteq> Fin 0
      | Some (CBool b) \<Rightarrow> b
      | Some (CTime t) \<Rightarrow> True
      | Some CNaT \<Rightarrow> True))"
proof -
  from build_dict_field[OF prepare_Inr_entries[OF assms(1)] bool_entry[OF assms(2)]]
  obtain v where v: "bool_field row k = Inr v" "map_of kw k = Some v"
    by blast
  show ?thesis
  proof (cases "row_get row k")
    case None
    with v show ?thesis by (simp add: bool_field_def)
  next
    case (Some c)
    with v show ?thesis by (cases c) (auto simp: bool_field_def)
  qed
qed

theorem flag_is_truth_value_witness:
  "row_get row_p1 ''is_recurring'' = Some (CStr ''no'')
   \<and> map_of dict_p1 ''is_recurring'' = Some (VBool True)"
proof -
  have field: "''is_recurring'' \<in> set (bool_fields ''payments'')"
    by (simp add: bool_fields_def)
  have cell: "row_get row_p1 ''is_recurring'' = Some (CStr ''no'')"
    by (simp add: row_get_def row_p1_def)
  from flag_is_truth_value[OF prepare_p1 field] cell show ?thesis by simp
qed

theorem false_and_zero_cells_are_false:
  "built_column sample_runtime sample_world ''payments'' flags_sheet ''is_recurring'' =
     [Some (VBool False), Some (VBool False), Some (VBool True), Some (VBool False)]"
  by code_simp

text \<open>
  C10. An empty email cell in a sheet that has the email column: the customer and the agent
  are built with the empty text as email.
\<close>

theorem blank_email_cell_kept:
  "built_column sample_runtime sample_world ''customers'' blank_email_sheet ''email'' = [Some (VStr [])]
   \<and> built_column sample_runtime sample_world ''agents'' blank_email_sheet ''email'' = [Some (VStr [])]"
  by code_simp

end
